theory Spec2Isabelle
  imports
    Complex_Main
    "HOL-Library.AList"
    "HOL-Library.Char_ord"
    "HOL-Library.List_Lexorder"
    "HOL-Library.Log_Nat"
begin

section \<open>Conventions of the embedding\<close>

text \<open>
  The development embeds the processing functions of \<^verbatim>\<open>scripts/consolidate-data.py\<close>.

  \<^item> A JSON document with a fixed schema is a record; a key whose value may be missing or
    \<^verbatim>\<open>null\<close> is an \<open>option\<close> field, and \<open>None\<close> stands for both, because the code reads
    such keys with \<^verbatim>\<open>.get(key)\<close> and then tests truthiness or \<^verbatim>\<open>is not None\<close>.
    A key read with \<^verbatim>\<open>.get(key, [])\<close> is a list field (missing is the empty list).
  \<^item> A Python \<^verbatim>\<open>dict\<close> built by the code is an association list in insertion order:
    \<open>map_of\<close> looks a key up, \<open>AList.update\<close> assigns (in place for an old key, at the
    end for a new one).
  \<^item> A number is a Python \<^verbatim>\<open>float\<close> and is modelled by the rational number it denotes;
    an integer value is read as the float of the same value. Every arithmetic operation
    of the code is followed by the binary64 rounding \<open>fl\<close> of the next section;
    comparisons, \<^verbatim>\<open>min\<close> and \<^verbatim>\<open>max\<close> are exact.
  \<^item> A key holds a value of the JSON type its schema names, or \<^verbatim>\<open>null\<close>: a number
    where a number is expected, a string for a timestamp, a date or a name. A key read
    with a default, \<^verbatim>\<open>.get(key, [])\<close> or \<^verbatim>\<open>.get(key, {})\<close>, holds a list or an object
    when it is present: a \<^verbatim>\<open>null\<close> there, on which the code raises, is left out.
  \<^item> Strings are \<open>string\<close>, ordered lexicographically by character code as Python
    orders \<^verbatim>\<open>str\<close>.
  \<^item> An exception is a value \<open>Inl e\<close> of a sum type.
\<close>

datatype error = TypeError | ValueError

definition round_half_even :: "'a::floor_ceiling \<Rightarrow> int" where
  "round_half_even x =
     (let f = \<lfloor>x\<rfloor>; d = x - of_int f
      in if d < 1 / 2 then f else if 1 / 2 < d then f + 1 else if even f then f else f + 1)"

section \<open>Binary64 arithmetic\<close>

text \<open>
  A finite float is the rational number it denotes. An operation returns the exact result
  rounded to the nearest number with a 53-bit significand, ties going to the even
  significand (\<open>fl\<close>). The exponent range is not bounded: overflow and subnormal numbers
  are left out, and so are infinities and NaN. \<^verbatim>\<open>sum\<close> adds from the left starting at 0,
  \<^verbatim>\<open>s ** 0.5\<close> is the correctly rounded square root, \<^verbatim>\<open>round(x, k)\<close> is the float
  nearest to \<open>x\<close> rounded to \<open>k\<close> decimals (ties to the even neighbour), and
  \<^verbatim>\<open>round(x)\<close> is the integer nearest to \<open>x\<close> (ties to the even integer).
\<close>

definition pow2 :: "int \<Rightarrow> rat" where
  "pow2 e = 2 powi e"

definition ilog2 :: "rat \<Rightarrow> int" where
  \<comment> \<open>for \<open>x > 0\<close>, the \<open>k\<close> with \<open>2\<^sup>k \<le> x < 2\<^sup>k\<^sup>+\<^sup>1\<close>\<close>
  "ilog2 x =
     (let (p, q) = quotient_of x; k = bitlen p - bitlen q
      in if pow2 k \<le> x then k else k - 1)"

definition fl :: "rat \<Rightarrow> rat" where
  "fl x =
     (if x = 0 then 0
      else (let e = ilog2 \<bar>x\<bar> - 52 in of_int (round_half_even (x / pow2 e)) * pow2 e))"

definition fl_sqrt :: "rat \<Rightarrow> rat" where
  \<comment> \<open>the significand \<open>m0\<close> is the integer square root, found bit by bit from bit 52 down\<close>
  "fl_sqrt s =
     (if s \<le> 0 then 0
      else
        (let e = (ilog2 s - 104) div 2;
             t = s / pow2 (2 * e);
             m0 = foldl (\<lambda>m i. if (of_nat (m + 2 ^ i))\<^sup>2 \<le> t then m + 2 ^ i else m)
                    (0::nat) (rev [0..<53]);
             h = (of_nat m0 + 1 / 2)\<^sup>2;
             m = (if h < t then m0 + 1 else if t < h then m0
                  else if even m0 then m0 else m0 + 1)
         in of_nat m * pow2 e))"

definition fl_sum :: "rat list \<Rightarrow> rat" where
  "fl_sum xs = foldl (\<lambda>acc a. fl (acc + a)) 0 xs"

definition fl_round :: "rat \<Rightarrow> nat \<Rightarrow> rat" where
  "fl_round x k = fl (of_int (round_half_even (x * 10 ^ k)) / 10 ^ k)"

section \<open>Values and dictionaries\<close>

definition str_truthy :: "string option \<Rightarrow> bool" where
  "str_truthy s = (case s of None \<Rightarrow> False | Some t \<Rightarrow> t \<noteq> [])"

definition num_truthy :: "rat option \<Rightarrow> bool" where
  "num_truthy v = (case v of None \<Rightarrow> False | Some x \<Rightarrow> x \<noteq> 0)"

definition or_zero :: "rat option \<Rightarrow> rat" where
  \<comment> \<open>\<^verbatim>\<open>v or 0\<close>\<close>
  "or_zero v = (case v of None \<Rightarrow> 0 | Some x \<Rightarrow> x)"

text \<open>
  One value of a per-source daily mapping: \<^verbatim>\<open>{"date": ..., "<source>": {...}}\<close>.
  \<open>entry_data\<close> is the sub-record under the source's key.
\<close>

record 'a entry =
  entry_date :: "string option"
  entry_data :: 'a

definition setdefault :: "'a \<Rightarrow> string \<Rightarrow> ('a entry \<Rightarrow> 'a entry) \<Rightarrow>
    (string \<times> 'a entry) list \<Rightarrow> (string \<times> 'a entry) list" where
  \<comment> \<open>\<^verbatim>\<open>daily[date]\<close> on a \<^verbatim>\<open>defaultdict\<close>, followed by the assignments \<open>f\<close> into it\<close>
  "setdefault dflt d f daily =
     AList.update d
       (f (case map_of daily d of
             None \<Rightarrow> \<lparr>entry_date = None, entry_data = dflt\<rparr>
           | Some e \<Rightarrow> e))
       daily"

section \<open>Glucose readings: \<^verbatim>\<open>process_lingo_data\<close>\<close>

record reading =
  timestamp :: "string option"
  reading_value :: "rat option"

record lingo_doc =
  history :: "reading list"

record glucose_stats =
  average :: rat
  glucose_min :: rat
  glucose_max :: rat
  readings :: nat
  inRange :: nat
  timeInRangePercent :: rat

text \<open>The sub-record under \<^verbatim>\<open>"glucose"\<close>: \<open>None\<close> is the empty object \<^verbatim>\<open>{}\<close>.\<close>

type_synonym glucose_rec = "glucose_stats option"

definition append_reading ::
    "(string \<times> rat option list) list \<Rightarrow> reading \<Rightarrow> (string \<times> rat option list) list" where
  \<comment> \<open>the body of the first loop; \<^verbatim>\<open>readings_by_date\<close> is a \<^verbatim>\<open>defaultdict(list)\<close>\<close>
  "append_reading readings_by_date r =
     (case timestamp r of
        None \<Rightarrow> readings_by_date
      | Some t \<Rightarrow>
          if t \<noteq> [] then
            (let date = take 10 t
             in AList.update date
                  ((case map_of readings_by_date date of None \<Rightarrow> [] | Some vs \<Rightarrow> vs)
                     @ [reading_value r])
                  readings_by_date)
          else readings_by_date)"

fun py_sum :: "rat option list \<Rightarrow> rat \<Rightarrow> error + rat" where
  \<comment> \<open>\<^verbatim>\<open>sum(values)\<close>: adding \<^verbatim>\<open>None\<close> to a number raises \<^verbatim>\<open>TypeError\<close>\<close>
  "py_sum [] acc = Inr acc"
| "py_sum (None # vs) acc = Inl TypeError"
| "py_sum (Some v # vs) acc = py_sum vs (fl (acc + v))"

definition in_band :: "rat \<Rightarrow> bool" where
  "in_band v = (70 \<le> v \<and> v \<le> 140)"

definition day_stats :: "rat option list \<Rightarrow> error + glucose_stats" where
  \<comment> \<open>the dict literal of the second loop; its first entry evaluates \<^verbatim>\<open>sum(values)\<close>,
      so the later entries only run on lists without \<^verbatim>\<open>None\<close>\<close>
  "day_stats vals =
     (case py_sum vals 0 of
        Inl e \<Rightarrow> Inl e
      | Inr s \<Rightarrow>
          (let vs = List.map_filter id vals
           in Inr \<lparr>average = fl_round (fl (s / of_nat (length vals))) 1,
                   glucose_min = Min (set vs),
                   glucose_max = Max (set vs),
                   readings = length vals,
                   inRange = length (filter in_band vs),
                   timeInRangePercent =
                     fl_round
                       (fl (fl (of_nat (length (filter in_band vs)) / of_nat (length vals)) * 100))
                       1\<rparr>))"

fun daily_stats :: "(string \<times> rat option list) list \<Rightarrow>
    (string \<times> glucose_rec entry) list \<Rightarrow> error + (string \<times> glucose_rec entry) list" where
  \<comment> \<open>the second loop, over \<^verbatim>\<open>readings_by_date.items()\<close>\<close>
  "daily_stats [] daily = Inr daily"
| "daily_stats ((date, vals) # rest) daily =
     (if vals \<noteq> [] then
        (case day_stats vals of
           Inl e \<Rightarrow> Inl e
         | Inr stats \<Rightarrow>
             daily_stats rest
               (setdefault None date
                  (\<lambda>e. e\<lparr>entry_date := Some date, entry_data := Some stats\<rparr>) daily))
      else daily_stats rest daily)"

definition process_lingo_data :: "lingo_doc \<Rightarrow> error + (string \<times> glucose_rec entry) list" where
  "process_lingo_data lingo = daily_stats (foldl append_reading [] (history lingo)) []"

section \<open>Recovery tracker: \<^verbatim>\<open>process_whoop_data\<close>\<close>

text \<open>
  A record of one of the three streams. \<open>score = None\<close> stands for a missing, \<^verbatim>\<open>null\<close>
  or empty \<^verbatim>\<open>score\<close> object: all three are falsy in \<^verbatim>\<open>record.get("score")\<close>.
\<close>

record 'a whoop_record =
  created_at :: "string option"
  score :: "'a option"

record recovery_score_obj =
  recovery_score :: "rat option"
  hrv_rmssd_milli :: "rat option"
  resting_heart_rate :: "rat option"

record stage_summary_obj =
  total_light_sleep_time_milli :: "rat option"
  total_slow_wave_sleep_time_milli :: "rat option"
  total_rem_sleep_time_milli :: "rat option"

record sleep_score_obj =
  stage_summary :: "stage_summary_obj option"
  sleep_performance_percentage :: "rat option"
  sleep_efficiency_percentage :: "rat option"

record workout_score_obj =
  score_strain :: "rat option"  \<comment> \<open>the key \<^verbatim>\<open>"strain"\<close> of a workout score\<close>

record whoop_doc =
  recovery :: "recovery_score_obj whoop_record list"
  sleep :: "sleep_score_obj whoop_record list"
  workout :: "workout_score_obj whoop_record list"

text \<open>The sub-record under \<^verbatim>\<open>"whoop"\<close>; a field is \<open>None\<close> when its key is absent or \<^verbatim>\<open>None\<close>.\<close>

record whoop_rec =
  recoveryScore :: "rat option"
  hrvMs :: "rat option"
  restingHeartRate :: "rat option"
  sleepHours :: "rat option"
  deepSleepHours :: "rat option"
  remSleepHours :: "rat option"
  lightSleepHours :: "rat option"
  sleepPerformance :: "rat option"
  sleepEfficiency :: "rat option"
  strain :: "rat option"

definition empty_whoop :: whoop_rec where
  "empty_whoop =
     \<lparr>recoveryScore = None, hrvMs = None, restingHeartRate = None, sleepHours = None,
      deepSleepHours = None, remSleepHours = None, lightSleepHours = None,
      sleepPerformance = None, sleepEfficiency = None, strain = None\<rparr>"

definition record_date :: "string option \<Rightarrow> string option" where
  \<comment> \<open>\<^verbatim>\<open>created_at[:10] if created_at else None\<close>\<close>
  "record_date c = (case c of None \<Rightarrow> None | Some t \<Rightarrow> if t \<noteq> [] then Some (take 10 t) else None)"

definition hrv_ms :: "rat \<Rightarrow> rat" where
  \<comment> \<open>\<^verbatim>\<open>round(hrv_raw if hrv_raw > 1 else hrv_raw * 1000, 1)\<close>\<close>
  "hrv_ms hrv_raw = fl_round (if 1 < hrv_raw then hrv_raw else fl (hrv_raw * 1000)) 1"

definition write_recovery :: "recovery_score_obj \<Rightarrow> whoop_rec \<Rightarrow> whoop_rec" where
  "write_recovery sc w =
     (let w1 = w\<lparr>recoveryScore := recovery_score sc\<rparr>;
          w2 = (case hrv_rmssd_milli sc of
                  None \<Rightarrow> w1
                | Some hrv_raw \<Rightarrow> w1\<lparr>hrvMs := Some (hrv_ms hrv_raw)\<rparr>)
      in w2\<lparr>restingHeartRate := resting_heart_rate sc\<rparr>)"

definition stage_ms :: "stage_summary_obj option \<Rightarrow> (stage_summary_obj \<Rightarrow> rat option) \<Rightarrow> rat" where
  \<comment> \<open>\<^verbatim>\<open>stage_summary.get(key) or 0\<close>, with \<^verbatim>\<open>stage_summary\<close> defaulting to \<^verbatim>\<open>{}\<close>:
      \<open>None\<close> is the missing key\<close>
  "stage_ms ss key = (case ss of None \<Rightarrow> 0 | Some s \<Rightarrow> or_zero (key s))"

definition write_sleep :: "sleep_score_obj \<Rightarrow> whoop_rec \<Rightarrow> whoop_rec" where
  "write_sleep sc w =
     (let ss = stage_summary sc;
          light = stage_ms ss total_light_sleep_time_milli;
          slow_wave = stage_ms ss total_slow_wave_sleep_time_milli;
          rem = stage_ms ss total_rem_sleep_time_milli;
          total_sleep_ms = fl (fl (light + slow_wave) + rem);
          w1 = (if 0 < total_sleep_ms then
                  w\<lparr>sleepHours := Some (fl_round (fl (total_sleep_ms / (1000 * 60 * 60))) 2),
                    deepSleepHours := Some (fl_round (fl (slow_wave / (1000 * 60 * 60))) 2),
                    remSleepHours := Some (fl_round (fl (rem / (1000 * 60 * 60))) 2),
                    lightSleepHours := Some (fl_round (fl (light / (1000 * 60 * 60))) 2)\<rparr>
                else w)
      in w1\<lparr>sleepPerformance := sleep_performance_percentage sc,
            sleepEfficiency := sleep_efficiency_percentage sc\<rparr>)"

definition write_workout :: "workout_score_obj \<Rightarrow> whoop_rec \<Rightarrow> whoop_rec" where
  "write_workout sc w =
     (let current_strain = (case strain w of None \<Rightarrow> 0 | Some c \<Rightarrow> c);
          new_strain = or_zero (score_strain sc)
      in w\<lparr>strain := Some (max current_strain new_strain)\<rparr>)"

definition stream_step :: "('a \<Rightarrow> whoop_rec \<Rightarrow> whoop_rec) \<Rightarrow>
    (string \<times> whoop_rec entry) list \<Rightarrow> 'a whoop_record \<Rightarrow> (string \<times> whoop_rec entry) list" where
  \<comment> \<open>the common shape of the three loop bodies: the guard
      \<^verbatim>\<open>if date and record.get("score")\<close>, then the writes into \<^verbatim>\<open>daily[date]\<close>\<close>
  "stream_step write daily r =
     (case record_date (created_at r) of
        None \<Rightarrow> daily
      | Some date \<Rightarrow>
          (case score r of
             None \<Rightarrow> daily
           | Some sc \<Rightarrow>
               setdefault empty_whoop date
                 (\<lambda>e. e\<lparr>entry_date := Some date, entry_data := write sc (entry_data e)\<rparr>)
                 daily))"

definition process_whoop_data :: "whoop_doc \<Rightarrow> (string \<times> whoop_rec entry) list" where
  "process_whoop_data whoop =
     foldl (stream_step write_workout)
       (foldl (stream_step write_sleep)
          (foldl (stream_step write_recovery) [] (recovery whoop))
          (sleep whoop))
       (workout whoop)"

section \<open>Merging the daily mappings: \<^verbatim>\<open>merge_daily_data\<close>\<close>

text \<open>
  The sub-record under \<^verbatim>\<open>"garmin"\<close>, with the keys \<^verbatim>\<open>process_garmin_data\<close> writes. The
  empty object \<^verbatim>\<open>{}\<close> has every field \<open>None\<close> and no activities.
\<close>

record activity =
  activity_name :: "string option"
  activity_type :: "string option"
  duration :: "rat option"
  activity_distance :: "rat option"
  activity_calories :: "rat option"
  averageHR :: "rat option"
  maxHR :: "rat option"

record garmin_rec =
  steps :: "rat option"
  calories :: "rat option"
  activeCalories :: "rat option"
  distance :: "rat option"
  floors :: "rat option"
  averageStress :: "rat option"
  bodyBattery :: "rat option"
  sleepSeconds :: "rat option"
  deepSleepSeconds :: "rat option"
  lightSleepSeconds :: "rat option"
  remSleepSeconds :: "rat option"
  sleepScore :: "rat option"
  activities :: "activity list"
  activityCount :: "nat option"
  totalActivityDuration :: "rat option"
  totalActivityCalories :: "rat option"
  weight :: "rat option"
  bodyFat :: "rat option"
  muscleMass :: "rat option"
  bmi :: "rat option"

definition empty_garmin :: garmin_rec where
  "empty_garmin =
     \<lparr>steps = None, calories = None, activeCalories = None, distance = None, floors = None,
      averageStress = None, bodyBattery = None, sleepSeconds = None, deepSleepSeconds = None,
      lightSleepSeconds = None, remSleepSeconds = None, sleepScore = None, activities = [],
      activityCount = None, totalActivityDuration = None, totalActivityCalories = None,
      weight = None, bodyFat = None, muscleMass = None, bmi = None\<rparr>"

record daily_record =
  date :: string
  garmin :: garmin_rec
  whoop :: whoop_rec
  glucose :: glucose_rec

definition sub_record :: "'a \<Rightarrow> (string \<times> 'a entry) list \<Rightarrow> string \<Rightarrow> 'a" where
  \<comment> \<open>\<^verbatim>\<open>daily.get(date, {}).get(key, {})\<close>\<close>
  "sub_record dflt daily d = (case map_of daily d of None \<Rightarrow> dflt | Some e \<Rightarrow> entry_data e)"

definition merge_daily_data :: "(string \<times> garmin_rec entry) list \<Rightarrow>
    (string \<times> glucose_rec entry) list \<Rightarrow> (string \<times> whoop_rec entry) list \<Rightarrow> daily_record list" where
  "merge_daily_data garmin_daily glucose_daily whoop_daily =
     (let all_dates = set (map fst garmin_daily) \<union> set (map fst glucose_daily)
                        \<union> set (map fst whoop_daily)
      in map (\<lambda>d. \<lparr>date = d,
                    garmin = sub_record empty_garmin garmin_daily d,
                    whoop = sub_record empty_whoop whoop_daily d,
                    glucose = sub_record None glucose_daily d\<rparr>)
           (sorted_list_of_set all_dates))"

section \<open>Correlations: \<^verbatim>\<open>calculate_correlations\<close>\<close>

text \<open>
  The nested routine \<^verbatim>\<open>pearson_correlation\<close>, every operation rounded. It carries the
  suffix \<open>f64\<close>; the name without suffix is kept for the same routine in exact arithmetic,
  which the reference formulations give for comparison.
\<close>

definition pearson_correlation_f64 :: "(rat \<times> rat) list \<Rightarrow> rat option" where
  "pearson_correlation_f64 pairs =
     (if length pairs < 3 then None
      else
        (let n = length pairs;
             x = map fst pairs;
             y = map snd pairs;
             mean_x = fl (fl_sum x / of_nat n);
             mean_y = fl (fl_sum y / of_nat n);
             numerator =
               fl_sum (map (\<lambda>i. fl (fl (x ! i - mean_x) * fl (y ! i - mean_y))) [0..<n]);
             denom_x = fl_sqrt (fl_sum (map (\<lambda>xi. fl ((fl (xi - mean_x))\<^sup>2)) x));
             denom_y = fl_sqrt (fl_sum (map (\<lambda>yi. fl ((fl (yi - mean_y))\<^sup>2)) y))
         in if denom_x = 0 \<or> denom_y = 0 then None
            else Some (fl_round (fl (numerator / fl (denom_x * denom_y))) 3)))"

record pair_lists =
  steps_sleep :: "(rat \<times> rat) list"
  steps_glucose :: "(rat \<times> rat) list"
  sleep_glucose :: "(rat \<times> rat) list"
  exercise_glucose :: "(rat \<times> rat) list"
  sleep_recovery :: "(rat \<times> rat) list"
  hrv_sleep :: "(rat \<times> rat) list"
  steps_recovery :: "(rat \<times> rat) list"

definition append_if :: "rat option \<Rightarrow> rat option \<Rightarrow> (rat \<Rightarrow> rat) \<Rightarrow>
    (rat \<times> rat) list \<Rightarrow> (rat \<times> rat) list" where
  \<comment> \<open>\<^verbatim>\<open>if a and b: pairs.append((f(a), b))\<close>\<close>
  "append_if a b f pairs =
     (case a of
        None \<Rightarrow> pairs
      | Some u \<Rightarrow>
          (case b of
             None \<Rightarrow> pairs
           | Some v \<Rightarrow> if u \<noteq> 0 \<and> v \<noteq> 0 then pairs @ [(f u, v)] else pairs))"

definition collect_pairs :: "pair_lists \<Rightarrow> daily_record \<Rightarrow> pair_lists" where
  \<comment> \<open>the body of the loop over \<^verbatim>\<open>daily_data\<close>\<close>
  "collect_pairs acc r =
     (let steps = steps (garmin r);
          sleep_hours = sleepHours (whoop r);
          recovery_score = recoveryScore (whoop r);
          hrv = hrvMs (whoop r);
          glucose_avg = map_option average (glucose r);
          activity_duration = totalActivityDuration (garmin r)
      in \<lparr>steps_sleep = append_if steps sleep_hours id (steps_sleep acc),
          steps_glucose = append_if steps glucose_avg id (steps_glucose acc),
          sleep_glucose = append_if sleep_hours glucose_avg id (sleep_glucose acc),
          exercise_glucose =
            append_if activity_duration glucose_avg (\<lambda>d. fl (d / 60)) (exercise_glucose acc),
          sleep_recovery = append_if sleep_hours recovery_score id (sleep_recovery acc),
          hrv_sleep = append_if hrv sleep_hours id (hrv_sleep acc),
          steps_recovery = append_if steps recovery_score id (steps_recovery acc)\<rparr>)"

definition paired_data :: "daily_record list \<Rightarrow> pair_lists" where
  "paired_data daily_data =
     foldl collect_pairs
       \<lparr>steps_sleep = [], steps_glucose = [], sleep_glucose = [], exercise_glucose = [],
        sleep_recovery = [], hrv_sleep = [], steps_recovery = []\<rparr>
       daily_data"

record correlation_result =
  correlation :: "rat option"
  dataPoints :: nat
  description :: string

definition result_of :: "(rat \<times> rat) list \<Rightarrow> string \<Rightarrow> correlation_result" where
  "result_of pairs text =
     \<lparr>correlation = pearson_correlation_f64 pairs, dataPoints = length pairs, description = text\<rparr>"

record correlations =
  steps_vs_sleep :: correlation_result
  steps_vs_glucose :: correlation_result
  sleep_vs_glucose :: correlation_result
  exercise_vs_glucose :: correlation_result
  sleep_vs_recovery :: correlation_result
  hrv_vs_sleep :: correlation_result
  steps_vs_recovery :: correlation_result

definition calculate_correlations :: "daily_record list \<Rightarrow> correlations" where
  "calculate_correlations daily_data =
     (let p = paired_data daily_data
      in \<lparr>steps_vs_sleep =
            result_of (steps_sleep p) ''Correlation between daily steps and sleep duration'',
          steps_vs_glucose =
            result_of (steps_glucose p) ''Correlation between daily steps and average glucose'',
          sleep_vs_glucose =
            result_of (sleep_glucose p)
              ''Correlation between sleep duration and average glucose'',
          exercise_vs_glucose =
            result_of (exercise_glucose p)
              ''Correlation between exercise duration (minutes) and average glucose'',
          sleep_vs_recovery =
            result_of (sleep_recovery p)
              ''Correlation between sleep duration and Whoop recovery score'',
          hrv_vs_sleep =
            result_of (hrv_sleep p) ''Correlation between HRV and sleep duration'',
          steps_vs_recovery =
            result_of (steps_recovery p)
              ''Correlation between daily steps and Whoop recovery score''\<rparr>)"

section \<open>Biomarkers: \<^verbatim>\<open>process_biomarkers\<close>\<close>

record measurement =
  measurement_date :: "string option"
  measurement_value :: "rat option"
  provider :: "string option"

text \<open>
  \<open>optimalRange\<close> is the result of \<^verbatim>\<open>biomarker.get("optimalRange", "")\<close>: \<open>None\<close> for
  \<^verbatim>\<open>null\<close>, the empty string for a missing key.
\<close>

record biomarker =
  biomarker_name :: "string option"
  unit :: "string option"
  optimalRange :: "string option"
  measurements :: "measurement list"
  results :: "measurement list"

record category =
  category_name :: "string option"
  biomarkers :: "biomarker list"

record biomarkers_doc =
  categories :: "category list"

record biomarker_result =
  result_date :: "string option"
  result_category :: "string option"
  result_biomarker :: "string option"
  result_value :: rat
  result_unit :: "string option"
  result_optimalRange :: "string option"
  optimalMin :: "rat option"
  optimalMax :: "rat option"
  result_inRange :: "bool option"
  result_provider :: "string option"

fun split_from :: "char \<Rightarrow> string \<Rightarrow> string \<Rightarrow> string list" where
  "split_from sep cur [] = [cur]"
| "split_from sep cur (c # cs) =
     (if c = sep then cur # split_from sep [] cs else split_from sep (cur @ [c]) cs)"

definition str_split :: "char \<Rightarrow> string \<Rightarrow> string list" where
  \<comment> \<open>\<^verbatim>\<open>s.split(sep)\<close> for a one-character separator\<close>
  "str_split sep s = split_from sep [] s"

definition range_parts :: "string \<Rightarrow> string list" where
  \<comment> \<open>\<^verbatim>\<open>optimal_range.replace(" ", "").split("-")\<close>\<close>
  "range_parts r = str_split CHR ''-'' (filter (\<lambda>c. c \<noteq> CHR '' '') r)"

text \<open>
  The builtin \<^verbatim>\<open>float\<close> is a parameter \<open>py_float\<close> of the model: \<open>py_float s = None\<close> when
  \<^verbatim>\<open>float(s)\<close> raises \<^verbatim>\<open>ValueError\<close>.
\<close>

definition to_float :: "(string \<Rightarrow> rat option) \<Rightarrow> string \<Rightarrow> error + rat option" where
  \<comment> \<open>\<^verbatim>\<open>float(part) if part else None\<close>\<close>
  "to_float py_float part =
     (if part \<noteq> [] then
        (case py_float part of None \<Rightarrow> Inl ValueError | Some v \<Rightarrow> Inr (Some v))
      else Inr None)"

definition parse_optimal_range ::
    "(string \<Rightarrow> rat option) \<Rightarrow> string option \<Rightarrow> rat option \<times> rat option" where
  \<comment> \<open>the pair \<^verbatim>\<open>(optimal_min, optimal_max)\<close> after the \<^verbatim>\<open>try\<close> block; the handler is
      \<^verbatim>\<open>except: pass\<close>, so an exception keeps the assignments made before it\<close>
  "parse_optimal_range py_float optimal_range =
     (case optimal_range of
        None \<Rightarrow> (None, None)
      | Some r \<Rightarrow>
          if r \<noteq> [] \<and> CHR ''-'' \<in> set r then
            (let parts = range_parts r
             in if length parts = 2 then
                  (case to_float py_float (parts ! 0) of
                     Inl e \<Rightarrow> (None, None)
                   | Inr optimal_min \<Rightarrow>
                       (case to_float py_float (parts ! 1) of
                          Inl e \<Rightarrow> (optimal_min, None)
                        | Inr optimal_max \<Rightarrow> (optimal_min, optimal_max)))
                else (None, None))
          else (None, None))"

definition in_range :: "rat option \<Rightarrow> rat option \<Rightarrow> rat \<Rightarrow> bool option" where
  "in_range optimal_min optimal_max v =
     (case optimal_min of
        None \<Rightarrow> None
      | Some lo \<Rightarrow>
          (case optimal_max of None \<Rightarrow> None | Some hi \<Rightarrow> Some (lo \<le> v \<and> v \<le> hi)))"

definition biomarker_results ::
    "(string \<Rightarrow> rat option) \<Rightarrow> string option \<Rightarrow> biomarker \<Rightarrow> biomarker_result list" where
  \<comment> \<open>the body of the loop over a category's biomarkers\<close>
  "biomarker_results py_float cname b =
     (let (optimal_min, optimal_max) = parse_optimal_range py_float (optimalRange b);
          ms = (if measurements b \<noteq> [] then measurements b else results b)
      in List.map_filter
           (\<lambda>m. case measurement_value m of
                   None \<Rightarrow> None
                 | Some v \<Rightarrow>
                     Some \<lparr>result_date = measurement_date m,
                           result_category = cname,
                           result_biomarker = biomarker_name b,
                           result_value = v,
                           result_unit = unit b,
                           result_optimalRange = optimalRange b,
                           optimalMin = optimal_min,
                           optimalMax = optimal_max,
                           result_inRange = in_range optimal_min optimal_max v,
                           result_provider = provider m\<rparr>)
           ms)"

definition process_biomarkers ::
    "(string \<Rightarrow> rat option) \<Rightarrow> biomarkers_doc \<Rightarrow> biomarker_result list" where
  "process_biomarkers py_float doc =
     concat (map (\<lambda>c. concat (map (biomarker_results py_float (category_name c)) (biomarkers c)))
               (categories doc))"

section \<open>Summary statistics: \<^verbatim>\<open>generate_summary_stats\<close>\<close>











text \<open>
  An instance of \<open>py_float\<close> for the examples: \<^verbatim>\<open>float\<close> on plain decimal literals
  (digits with an optional fraction), the float nearest to the decimal value. Every other string is rejected here, which agrees
  with \<^verbatim>\<open>float\<close> on the strings of the examples.
\<close>

definition is_digit :: "char \<Rightarrow> bool" where
  "is_digit c = (CHR ''0'' \<le> c \<and> c \<le> CHR ''9'')"

definition digits_value :: "string \<Rightarrow> nat" where
  "digits_value ds = foldl (\<lambda>acc c. 10 * acc + (of_char c - 48)) 0 ds"

definition dec_float :: "string \<Rightarrow> rat option" where
  "dec_float s =
     (let ip = takeWhile is_digit s; rest = dropWhile is_digit s
      in case rest of
           [] \<Rightarrow> if ip \<noteq> [] then Some (fl (of_nat (digits_value ip))) else None
         | c # fp \<Rightarrow>
             if c = CHR ''.'' \<and> list_all is_digit fp \<and> \<not> (ip = [] \<and> fp = [])
             then Some (fl (of_nat (digits_value ip) + of_nat (digits_value fp) / 10 ^ length fp))
             else None)"

section \<open>Reference formulations\<close>

text \<open>
  The correlation routine in exact arithmetic over the real numbers, with the rounding to
  decimals done exactly. It is not the code: it shows what the routine would return
  without floating-point rounding.
\<close>

definition py_round :: "real \<Rightarrow> nat \<Rightarrow> real" where
  "py_round x k = of_int (round_half_even (x * 10 ^ k)) / 10 ^ k"

definition pearson_correlation :: "(real \<times> real) list \<Rightarrow> real option" where
  \<comment> \<open>\<^verbatim>\<open>s ** 0.5\<close> of a sum of squares is its square root\<close>
  "pearson_correlation pairs =
     (if length pairs < 3 then None
      else
        (let n = length pairs;
             x = map fst pairs;
             y = map snd pairs;
             mean_x = sum_list x / real n;
             mean_y = sum_list y / real n;
             numerator = sum_list (map (\<lambda>i. (x ! i - mean_x) * (y ! i - mean_y)) [0..<n]);
             denom_x = sqrt (sum_list (map (\<lambda>xi. (xi - mean_x)\<^sup>2) x));
             denom_y = sqrt (sum_list (map (\<lambda>yi. (yi - mean_y)\<^sup>2) y))
         in if denom_x = 0 \<or> denom_y = 0 then None
            else Some (py_round (numerator / (denom_x * denom_y)) 3)))"

text \<open>
  The pair list of the specification for two metrics \<open>fx\<close> and \<open>fy\<close>: the values of the
  records in which both are present and truthy, in the order of the records.
\<close>

definition truthy_pair :: "rat option \<Rightarrow> rat option \<Rightarrow> (rat \<times> rat) option" where
  "truthy_pair a b =
     (case a of
        None \<Rightarrow> None
      | Some x \<Rightarrow> (case b of None \<Rightarrow> None | Some y \<Rightarrow> if x \<noteq> 0 \<and> y \<noteq> 0 then Some (x, y) else None))"

definition both_truthy :: "(daily_record \<Rightarrow> rat option) \<Rightarrow> (daily_record \<Rightarrow> rat option) \<Rightarrow>
    daily_record list \<Rightarrow> (rat \<times> rat) list" where
  "both_truthy fx fy daily_data = List.map_filter (\<lambda>r. truthy_pair (fx r) (fy r)) daily_data"

text \<open>
  The recovery-tracker records that fall on a date: \<open>on_date d r\<close> is the score object
  of \<open>r\<close> when \<open>r\<close> has one and its creation timestamp starts with \<open>d\<close>. The per-event
  strain values and the raw HRV values of a date are read off the workout and the
  recovery stream, in the order of the stream.
\<close>

definition on_date :: "string \<Rightarrow> 'a whoop_record \<Rightarrow> 'a option" where
  "on_date d r = (if record_date (created_at r) = Some d then score r else None)"

definition workout_strains :: "whoop_doc \<Rightarrow> string \<Rightarrow> rat list" where
  "workout_strains w d =
     List.map_filter (\<lambda>r. map_option (\<lambda>sc. or_zero (score_strain sc)) (on_date d r)) (workout w)"

definition recovery_hrvs :: "whoop_doc \<Rightarrow> string \<Rightarrow> rat list" where
  "recovery_hrvs w d =
     List.map_filter (\<lambda>r. Option.bind (on_date d r) hrv_rmssd_milli) (recovery w)"

text \<open>The effect of one record of a stream on the sub-record of the date \<open>d\<close>.\<close>

definition day_step :: "('a \<Rightarrow> whoop_rec \<Rightarrow> whoop_rec) \<Rightarrow> string \<Rightarrow> whoop_rec \<Rightarrow>
    'a whoop_record \<Rightarrow> whoop_rec" where
  "day_step write d w r = (case on_date d r of None \<Rightarrow> w | Some sc \<Rightarrow> write sc w)"



section \<open>Properties\<close>

subsection \<open>Binary64 rounding\<close>

text \<open>Powers of two and the binary logarithm.\<close>

lemma pow2_pos: "0 < pow2 e"
  by (simp add: pow2_def)

lemma pow2_add: "pow2 (a + b) = pow2 a * pow2 b"
  by (simp add: pow2_def power_int_add)

lemma pow2_mono: "a \<le> b \<Longrightarrow> pow2 a \<le> pow2 b"
  by (simp add: pow2_def power_int_increasing)

lemma pow2_nat: "0 \<le> e \<Longrightarrow> pow2 e = 2 ^ nat e"
  by (simp add: pow2_def power_int_def)

lemma pow2_bitlen:
  assumes "0 < p"
  shows "pow2 (bitlen p - 1) \<le> of_int p" and "of_int p < pow2 (bitlen p)"
proof -
  from assms have b: "1 \<le> bitlen p"
    by (auto simp: bitlen_alt_def)
  from bitlen_bounds [OF assms] have "2 ^ nat (bitlen p - 1) \<le> p" and "p < 2 ^ nat (bitlen p)"
    by auto
  then have "(of_int (2 ^ nat (bitlen p - 1)) :: rat) \<le> of_int p"
    and "(of_int p :: rat) < of_int (2 ^ nat (bitlen p))"
    by (simp_all only: of_int_le_iff of_int_less_iff)
  then show "pow2 (bitlen p - 1) \<le> of_int p" and "of_int p < pow2 (bitlen p)"
    using b by (simp_all add: pow2_nat)
qed

lemma ilog2_bounds:
  assumes "0 < x"
  shows "pow2 (ilog2 x) \<le> x" and "x < pow2 (ilog2 x + 1)"
proof -
  obtain p q where pq: "quotient_of x = (p, q)"
    by (cases "quotient_of x")
  then have q: "0 < q" and x: "x = of_int p / of_int q"
    by (simp_all add: quotient_of_denom_pos quotient_of_div)
  with assms have p: "0 < p"
    by (simp add: zero_less_divide_iff)
  let ?k = "bitlen p - bitlen q"
  have lo: "pow2 (?k - 1) < x"
  proof -
    have "pow2 (?k - 1) * of_int q < pow2 (?k - 1) * pow2 (bitlen q)"
      using pow2_bitlen(2) [OF q] pow2_pos by simp
    also have "\<dots> = pow2 (bitlen p - 1)"
      by (simp flip: pow2_add)
    also have "\<dots> \<le> of_int p"
      by (rule pow2_bitlen(1) [OF p])
    finally show ?thesis
      using q by (simp add: x pos_less_divide_eq)
  qed
  have hi: "x < pow2 (?k + 1)"
  proof -
    have "of_int p < pow2 (bitlen p)"
      by (rule pow2_bitlen(2) [OF p])
    also have "\<dots> = pow2 (?k + 1) * pow2 (bitlen q - 1)"
      by (simp flip: pow2_add)
    also have "\<dots> \<le> pow2 (?k + 1) * of_int q"
      using pow2_bitlen(1) [OF q] pow2_pos [of "?k + 1"] by simp
    finally show ?thesis
      using q by (simp add: x pos_divide_less_eq)
  qed
  have i: "ilog2 x = (if pow2 ?k \<le> x then ?k else ?k - 1)"
    by (simp add: ilog2_def pq Let_def)
  show "pow2 (ilog2 x) \<le> x"
    using lo by (simp add: i)
  show "x < pow2 (ilog2 x + 1)"
    using hi by (simp add: i not_le)
qed

lemma ilog2_unique:
  assumes "pow2 k \<le> x" and "x < pow2 (k + 1)"
  shows "ilog2 x = k"
proof -
  have x: "0 < x"
    using assms(1) pow2_pos [of k] by simp
  have "pow2 (ilog2 x) < pow2 (k + 1)"
    using ilog2_bounds(1) [OF x] assms(2) by simp
  then have a: "ilog2 x < k + 1"
    using pow2_mono [of "k + 1" "ilog2 x"] by linarith
  have "pow2 k < pow2 (ilog2 x + 1)"
    using ilog2_bounds(2) [OF x] assms(1) by simp
  then have b: "k < ilog2 x + 1"
    using pow2_mono [of "ilog2 x + 1" k] by linarith
  from a b show ?thesis by simp
qed

lemma fl_eq:
  assumes "pow2 (e + 52) \<le> \<bar>x\<bar>" and "\<bar>x\<bar> < pow2 (e + 53)"
    and "round_half_even (x / pow2 e) = m"
  shows "fl x = of_int m * pow2 e"
proof -
  have "ilog2 \<bar>x\<bar> = e + 52"
    using assms(1,2) by (intro ilog2_unique) (simp_all add: add.assoc)
  moreover have "x \<noteq> 0"
    using assms(1) pow2_pos [of "e + 52"] by auto
  ultimately show ?thesis
    using assms(3) by (simp add: fl_def Let_def)
qed

lemma foldl_sqrt_bits_mono:
  "m \<le> foldl (\<lambda>m i. if (of_nat (m + 2 ^ i))\<^sup>2 \<le> t then m + 2 ^ i else m) m (is :: nat list)"
  for t :: rat and m :: nat
proof (induction "is" arbitrary: m)
  case Nil
  show ?case by simp
next
  case (Cons i "is")
  have "m \<le> (if (of_nat (m + 2 ^ i))\<^sup>2 \<le> t then m + 2 ^ i else m)"
    by simp
  also have "\<dots> \<le> foldl (\<lambda>m i. if (of_nat (m + 2 ^ i))\<^sup>2 \<le> t then m + 2 ^ i else m)
      (if (of_nat (m + 2 ^ i))\<^sup>2 \<le> t then m + 2 ^ i else m) is"
    by (rule Cons.IH)
  finally show ?case
    by simp
qed

lemma fl_sqrt_pos:
  assumes "0 < s"
  shows "0 < fl_sqrt s"
proof -
  define e where "e = (ilog2 s - 104) div 2"
  define t where "t = s / pow2 (2 * e)"
  define m0 where "m0 = foldl (\<lambda>m i. if (of_nat (m + 2 ^ i))\<^sup>2 \<le> t then m + 2 ^ i else m)
      (0::nat) (rev [0..<53])"
  have "2 * e + 104 \<le> ilog2 s"
    unfolding e_def by linarith
  then have "pow2 (2 * e + 104) \<le> pow2 (ilog2 s)"
    by (rule pow2_mono)
  also have "\<dots> \<le> s"
    by (rule ilog2_bounds(1) [OF assms])
  finally have "pow2 104 * pow2 (2 * e) \<le> s"
    by (simp add: pow2_add mult.commute)
  then have t: "pow2 104 \<le> t"
    using pow2_pos [of "2 * e"] by (simp add: t_def pos_le_divide_eq)
  have r: "rev [0..<53] = 52 # rev [0..<52]"
    by (simp add: numeral_eq_Suc)
  have "((of_nat (0 + 2 ^ 52)) :: rat)\<^sup>2 = pow2 104"
    by (simp add: pow2_nat)
  with t have "((of_nat (0 + 2 ^ 52)) :: rat)\<^sup>2 \<le> t"
    by simp
  then have "m0 = foldl (\<lambda>m i. if (of_nat (m + 2 ^ i))\<^sup>2 \<le> t then m + 2 ^ i else m)
      (0 + 2 ^ 52) (rev [0..<52])"
    unfolding m0_def r by simp
  then have "0 + 2 ^ 52 \<le> m0"
    using foldl_sqrt_bits_mono [of "0 + 2 ^ 52" t "rev [0..<52]"] by simp
  then have m0: "0 < m0"
    by simp
  have "fl_sqrt s = of_nat (if (of_nat m0 + 1 / 2)\<^sup>2 < t then m0 + 1
        else if t < (of_nat m0 + 1 / 2)\<^sup>2 then m0 else if even m0 then m0 else m0 + 1) * pow2 e"
    using assms by (simp add: fl_sqrt_def Let_def e_def t_def m0_def)
  then show ?thesis
    using m0 pow2_pos [of e] by (auto simp: zero_less_mult_iff)
qed

lemma round_half_even_near:
  fixes x :: rat
  assumes "of_int m - 1 / 2 < x" and "x < of_int m + 1 / 2"
  shows "round_half_even x = m"
proof (cases "of_int m \<le> x")
  case True
  with assms have "\<lfloor>x\<rfloor> = m"
    by (intro floor_unique) simp_all
  with assms show ?thesis
    by (simp add: round_half_even_def Let_def)
next
  case False
  with assms have "\<lfloor>x\<rfloor> = m - 1"
    by (intro floor_unique) simp_all
  with assms show ?thesis
    by (simp add: round_half_even_def Let_def)
qed

lemma round_half_even_tie_down:
  fixes x :: rat
  assumes "x = of_int m + 1 / 2" and "even m"
  shows "round_half_even x = m"
proof -
  from assms have "\<lfloor>x\<rfloor> = m"
    by (intro floor_unique) simp_all
  with assms show ?thesis
    by (simp add: round_half_even_def Let_def)
qed

lemma round_half_even_tie_up:
  fixes x :: rat
  assumes "x = of_int m - 1 / 2" and "even m"
  shows "round_half_even x = m"
proof -
  from assms have "\<lfloor>x\<rfloor> = m - 1"
    by (intro floor_unique) simp_all
  with assms show ?thesis
    by (simp add: round_half_even_def Let_def)
qed

lemma fl_zero: "fl 0 = 0"
  by (simp add: fl_def)

lemma fl_scaled:
  assumes "p = pow2 e" and "2 ^ 52 * p \<le> \<bar>x\<bar>" and "\<bar>x\<bar> < 2 ^ 53 * p"
    and "round_half_even (x / p) = m"
  shows "fl x = of_int m * p"
proof -
  have a: "pow2 (e + 52) \<le> \<bar>x\<bar>"
    using assms(2) by (simp add: pow2_add assms(1) pow2_nat mult.commute)
  have b: "\<bar>x\<bar> < pow2 (e + 53)"
    using assms(3) by (simp add: pow2_add assms(1) pow2_nat mult.commute)
  have "fl x = of_int m * pow2 e"
    using a b by (rule fl_eq) (simp add: assms(4) flip: assms(1))
  then show ?thesis
    by (simp add: assms(1))
qed

lemma pow2_neg_numeral: "pow2 (- numeral k) = 1 / 2 ^ numeral k"
  by (simp add: pow2_def power_int_def power_one_over)

lemma pow2_numeral: "pow2 (numeral k) = 2 ^ numeral k"
  by (simp add: pow2_def power_int_def)

lemma fl_near:
  assumes "p = pow2 e" and "2 ^ 52 * p \<le> \<bar>x\<bar>" and "\<bar>x\<bar> < 2 ^ 53 * p"
    and "of_int m - 1 / 2 < x / p" and "x / p < of_int m + 1 / 2" and "r = of_int m * p"
  shows "fl x = r"
  unfolding assms(6) using assms(1-3)
  by (rule fl_scaled) (rule round_half_even_near [OF assms(4,5)])

lemma fl_tie_down:
  assumes "p = pow2 e" and "2 ^ 52 * p \<le> \<bar>x\<bar>" and "\<bar>x\<bar> < 2 ^ 53 * p"
    and "x / p = of_int m + 1 / 2" and "even m" and "r = of_int m * p"
  shows "fl x = r"
  unfolding assms(6) using assms(1-3)
  by (rule fl_scaled) (rule round_half_even_tie_down [OF assms(4,5)])

lemma fl_tie_up:
  assumes "p = pow2 e" and "2 ^ 52 * p \<le> \<bar>x\<bar>" and "\<bar>x\<bar> < 2 ^ 53 * p"
    and "x / p = of_int m - 1 / 2" and "even m" and "r = of_int m * p"
  shows "fl x = r"
  unfolding assms(6) using assms(1-3)
  by (rule fl_scaled) (rule round_half_even_tie_up [OF assms(4,5)])

lemma fl_sum_three: "fl_sum [a, b, c] = fl (fl (fl (0 + a) + b) + c)"
  by (simp only: fl_sum_def foldl.simps)

lemma pearson_correlation_f64_three:
  assumes "fl (fl_sum [x0, x1, x2] / 3) = mx"
    and "fl (fl_sum [y0, y1, y2] / 3) = my"
    and "fl (x0 - mx) = a0" and "fl (x1 - mx) = a1" and "fl (x2 - mx) = a2"
    and "fl (y0 - my) = b0" and "fl (y1 - my) = b1" and "fl (y2 - my) = b2"
    and "fl_sum [fl (a0 * b0), fl (a1 * b1), fl (a2 * b2)] = num"
    and "fl_sum [fl (a0\<^sup>2), fl (a1\<^sup>2), fl (a2\<^sup>2)] = sx"
    and "fl_sum [fl (b0\<^sup>2), fl (b1\<^sup>2), fl (b2\<^sup>2)] = sy"
  shows "pearson_correlation_f64 [(x0, y0), (x1, y1), (x2, y2)]
     = (if fl_sqrt sx = 0 \<or> fl_sqrt sy = 0 then None
        else Some (fl_round (fl (num / fl (fl_sqrt sx * fl_sqrt sy))) 3))"
proof -
  have u: "[0..<3] = [0, 1, 2]"
    by (simp add: upt_rec)
  show ?thesis
    unfolding pearson_correlation_f64_def Let_def
    by (simp add: u assms nth_Cons')
qed

lemma round_half_even_of_int: "round_half_even (of_int m :: rat) = m"
  by (simp add: round_half_even_def)

lemma fl_of_int:
  assumes "\<bar>k\<bar> < 2 ^ 53"
  shows "fl (of_int k) = of_int k"
proof (cases "k = 0")
  case True
  then show ?thesis by (simp add: fl_zero)
next
  case False
  define L where "L = ilog2 \<bar>of_int k\<bar>"
  have pos: "0 < \<bar>of_int k :: rat\<bar>"
    using False by simp
  have "\<bar>of_int k :: rat\<bar> < of_int (2 ^ 53)"
    using assms by (simp only: of_int_abs [symmetric] of_int_less_iff)
  then have "\<bar>of_int k :: rat\<bar> < pow2 53"
    by (simp add: pow2_nat)
  with ilog2_bounds(1) [OF pos] have "pow2 L < pow2 53"
    unfolding L_def by simp
  then have L: "L < 53"
    using pow2_mono [of 53 L] by linarith
  define j where "j = k * 2 ^ nat (52 - L)"
  have p: "pow2 (52 - L) = 2 ^ nat (52 - L)"
    using L by (simp add: pow2_nat)
  have "pow2 (L - 52) * pow2 (52 - L) = 1"
    by (simp add: pow2_def flip: power_int_add)
  then have q: "(of_int k :: rat) / pow2 (L - 52) = of_int j"
    using pow2_pos [of "L - 52"] by (simp add: j_def p field_simps)
  have "fl (of_int k) = of_int (round_half_even (of_int k / pow2 (L - 52))) * pow2 (L - 52)"
    using False by (simp add: fl_def Let_def L_def)
  also have "\<dots> = of_int j * pow2 (L - 52)"
    by (simp only: q round_half_even_of_int)
  also have "\<dots> = of_int k"
    using pow2_pos [of "L - 52"] by (simp flip: q)
  finally show ?thesis .
qed

lemma fl_numeral: "(numeral n :: int) < 2 ^ 53 \<Longrightarrow> fl (numeral n) = numeral n"
  using fl_of_int [of "numeral n"] by simp

lemma fl_neg_numeral: "(numeral n :: int) < 2 ^ 53 \<Longrightarrow> fl (- numeral n) = - numeral n"
  using fl_of_int [of "- numeral n"] by simp

lemma fl_one: "fl 1 = 1"
  using fl_of_int [of 1] by simp

lemma round_half_even_numeral: "round_half_even (numeral n :: rat) = numeral n"
  using round_half_even_of_int [of "numeral n"] by simp

lemma fl_round_eval:
  assumes "round_half_even (x * 10 ^ k) = m" and "fl (of_int m / 10 ^ k) = r"
  shows "fl_round x k = r"
  by (simp add: fl_round_def assms)


lemma fl_round_near:
  assumes "of_int m - 1 / 2 < x * 10 ^ k" and "x * 10 ^ k < of_int m + 1 / 2"
    and "fl (of_int m / 10 ^ k) = r"
  shows "fl_round x k = r"
  using round_half_even_near [OF assms(1,2)] assms(3) by (rule fl_round_eval)

lemma fl_round_tie_down:
  assumes "x * 10 ^ k = of_int m + 1 / 2" and "even m" and "fl (of_int m / 10 ^ k) = r"
  shows "fl_round x k = r"
  using round_half_even_tie_down [OF assms(1,2)] assms(3) by (rule fl_round_eval)

lemma fl_round_tie_up:
  assumes "x * 10 ^ k = of_int m - 1 / 2" and "even m" and "fl (of_int m / 10 ^ k) = r"
  shows "fl_round x k = r"
  using round_half_even_tie_up [OF assms(1,2)] assms(3) by (rule fl_round_eval)

subsection \<open>Glucose readings with a missing value\<close>

text \<open>
  The specification example: readings 100, 120, 150 and 90 on one day, and one reading
  without a timestamp, which the first loop drops.
\<close>

lemma process_lingo_data_example:
  "process_lingo_data
     \<lparr>history =
        [\<lparr>timestamp = Some ''2024-01-01T08:00:00'', reading_value = Some 100\<rparr>,
         \<lparr>timestamp = Some ''2024-01-01T08:05:00'', reading_value = Some 120\<rparr>,
         \<lparr>timestamp = None, reading_value = Some 55\<rparr>,
         \<lparr>timestamp = Some ''2024-01-01T09:05:00'', reading_value = Some 150\<rparr>,
         \<lparr>timestamp = Some ''2024-01-01T10:05:00'', reading_value = Some 90\<rparr>]\<rparr>
   = Inr [(''2024-01-01'',
           \<lparr>entry_date = Some ''2024-01-01'',
            entry_data = Some \<lparr>average = 115, glucose_min = 90, glucose_max = 150,
                               readings = 4, inRange = 3, timeInRangePercent = 75\<rparr>\<rparr>)]"
proof -
  have q: "fl (3 / 4) = 3 / 4"
    by (rule fl_near [where e = "- 53" and m = "6755399441055744" and p = "1 / 9007199254740992"])
      (simp_all add: pow2_neg_numeral)
  show ?thesis
    by (simp add: process_lingo_data_def append_reading_def day_stats_def setdefault_def
        List.map_filter_def in_band_def fl_numeral fl_round_def round_half_even_numeral q)
qed

text \<open>
  Claim C1. A history record that lacks a required key is to be skipped without aborting
  the processing; in particular a reading with a timestamp and a missing or \<^verbatim>\<open>null\<close>
  value is to be skipped and the other readings of the day still give the statistics.
  The code appends the \<^verbatim>\<open>None\<close> value to the day's list, and \<^verbatim>\<open>sum(values)\<close> raises
  \<^verbatim>\<open>TypeError\<close>: for a day with a \<^verbatim>\<open>null\<close> reading and a reading of 100 the function
  returns no mapping at all.
\<close>

theorem process_lingo_data_null_value_raises:
  "process_lingo_data
     \<lparr>history =
        [\<lparr>timestamp = Some ''2024-01-01T08:00:00'', reading_value = None\<rparr>,
         \<lparr>timestamp = Some ''2024-01-01T08:05:00'', reading_value = Some 100\<rparr>]\<rparr>
   = Inl TypeError"
  by (simp add: process_lingo_data_def append_reading_def day_stats_def)

subsection \<open>The merged sequence\<close>

text \<open>
  Claim C2. For every triple of per-source mappings, the dates of the merged sequence are
  the union of the three key sets, in strictly increasing order and without repetition,
  and every record carries the three sub-records: the source's sub-record for the date, or
  the empty object when the source has no entry for the date.
\<close>

theorem merge_daily_data_union_sorted:
  "map date (merge_daily_data g l w)
     = sorted_list_of_set (fst ` set g \<union> fst ` set l \<union> fst ` set w)
   \<and> set (map date (merge_daily_data g l w)) = fst ` set g \<union> fst ` set l \<union> fst ` set w
   \<and> sorted_wrt (<) (map date (merge_daily_data g l w))
   \<and> distinct (map date (merge_daily_data g l w))
   \<and> (\<forall>r \<in> set (merge_daily_data g l w).
         garmin r = (case map_of g (date r) of None \<Rightarrow> empty_garmin | Some e \<Rightarrow> entry_data e)
       \<and> whoop r = (case map_of w (date r) of None \<Rightarrow> empty_whoop | Some e \<Rightarrow> entry_data e)
       \<and> glucose r = (case map_of l (date r) of None \<Rightarrow> None | Some e \<Rightarrow> entry_data e))"
proof -
  let ?A = "fst ` set g \<union> fst ` set l \<union> fst ` set w"
  have fin: "finite ?A" by simp
  have m: "map date (merge_daily_data g l w) = sorted_list_of_set ?A"
    by (simp add: merge_daily_data_def comp_def)
  show ?thesis
    unfolding m using fin
    by (auto simp: merge_daily_data_def sub_record_def)
qed

text \<open>
  The end-to-end scenario of the specification: steps on 1 to 3 January, glucose on 2 to
  4 January. The merged sequence has the four dates, the first without glucose and the
  last without tracker data.
\<close>

theorem merge_daily_data_union_sorted_witness:
  "map date
     (merge_daily_data
        [(''2024-01-01'', \<lparr>entry_date = Some ''2024-01-01'', entry_data = empty_garmin\<lparr>steps := Some 8000\<rparr>\<rparr>),
         (''2024-01-02'', \<lparr>entry_date = Some ''2024-01-02'', entry_data = empty_garmin\<lparr>steps := Some 9000\<rparr>\<rparr>),
         (''2024-01-03'', \<lparr>entry_date = Some ''2024-01-03'', entry_data = empty_garmin\<lparr>steps := Some 7000\<rparr>\<rparr>)]
        [(''2024-01-04'', \<lparr>entry_date = Some ''2024-01-04'', entry_data = None\<rparr>),
         (''2024-01-02'', \<lparr>entry_date = Some ''2024-01-02'', entry_data = None\<rparr>),
         (''2024-01-03'', \<lparr>entry_date = Some ''2024-01-03'', entry_data = None\<rparr>)]
        [])
     = [''2024-01-01'', ''2024-01-02'', ''2024-01-03'', ''2024-01-04'']
   \<and> garmin
       (last (merge_daily_data
        [(''2024-01-01'', \<lparr>entry_date = Some ''2024-01-01'', entry_data = empty_garmin\<lparr>steps := Some 8000\<rparr>\<rparr>),
         (''2024-01-02'', \<lparr>entry_date = Some ''2024-01-02'', entry_data = empty_garmin\<lparr>steps := Some 9000\<rparr>\<rparr>),
         (''2024-01-03'', \<lparr>entry_date = Some ''2024-01-03'', entry_data = empty_garmin\<lparr>steps := Some 7000\<rparr>\<rparr>)]
        [(''2024-01-04'', \<lparr>entry_date = Some ''2024-01-04'', entry_data = None\<rparr>),
         (''2024-01-02'', \<lparr>entry_date = Some ''2024-01-02'', entry_data = None\<rparr>),
         (''2024-01-03'', \<lparr>entry_date = Some ''2024-01-03'', entry_data = None\<rparr>)]
        []))
     = empty_garmin"
  (is "map date (merge_daily_data ?G ?L ?W) = ?ds \<and> _")
proof -
  let ?M = "merge_daily_data ?G ?L ?W"
  have s: "sorted_list_of_set (fst ` set ?G \<union> fst ` set ?L \<union> fst ` set ?W) = ?ds"
    by code_simp
  note inst = merge_daily_data_union_sorted [of ?G ?L ?W]
  from inst have "map date ?M = sorted_list_of_set (fst ` set ?G \<union> fst ` set ?L \<union> fst ` set ?W)"
    by blast
  then have dates: "map date ?M = ?ds"
    unfolding s .
  then have ne: "?M \<noteq> []"
    by auto
  have "last (map date ?M) = ''2024-01-04''"
    unfolding dates by simp
  then have d: "date (last ?M) = ''2024-01-04''"
    using ne by (simp add: last_map)
  from inst ne have "garmin (last ?M)
      = (case map_of ?G (date (last ?M)) of None \<Rightarrow> empty_garmin | Some e \<Rightarrow> entry_data e)"
    by (meson last_in_set)
  then have "garmin (last ?M) = empty_garmin"
    unfolding d by simp
  with dates show ?thesis
    by blast
qed

subsection \<open>The correlation routine\<close>




text \<open>
  Claim C10. The routine is symmetric: exchanging the two components of every pair gives
  the same coefficient, or null in both cases. Rounded products commute as exact ones do,
  so this holds for the floating-point routine and for the routine in exact arithmetic.
\<close>

theorem pearson_correlation_symmetric:
  "pearson_correlation_f64 (map prod.swap pairs) = pearson_correlation_f64 pairs
   \<and> pearson_correlation (map prod.swap ps) = pearson_correlation ps"
proof -
  have f: "map fst (map prod.swap xs) = map snd xs" for xs :: "('a \<times> 'a) list"
    by (simp add: comp_def)
  have s: "map snd (map prod.swap xs) = map fst xs" for xs :: "('a \<times> 'a) list"
    by (simp add: comp_def)
  have "pearson_correlation_f64 (map prod.swap pairs) = pearson_correlation_f64 pairs"
    unfolding pearson_correlation_f64_def Let_def f s length_map
    by (simp add: mult.commute disj_commute)
  moreover have "pearson_correlation (map prod.swap ps) = pearson_correlation ps"
    unfolding pearson_correlation_def Let_def f s length_map
    by (simp add: mult.commute disj_commute)
  ultimately show ?thesis
    by blast
qed

subsection \<open>The collected pairs\<close>

lemma append_if_truthy_pair:
  "append_if a b f ps = ps @ (case truthy_pair a b of None \<Rightarrow> [] | Some (x, y) \<Rightarrow> [(f x, y)])"
  by (simp add: append_if_def truthy_pair_def split: option.splits)

lemma map_filter_Cons:
  "List.map_filter f (x # xs) = (case f x of None \<Rightarrow> [] | Some y \<Rightarrow> [y]) @ List.map_filter f xs"
  by (simp add: List.map_filter_def split: option.splits)

lemma foldl_collect_pairs:
  "foldl collect_pairs acc ds =
     \<lparr>steps_sleep = steps_sleep acc
        @ both_truthy (\<lambda>r. steps (garmin r)) (\<lambda>r. sleepHours (whoop r)) ds,
      steps_glucose = steps_glucose acc
        @ both_truthy (\<lambda>r. steps (garmin r)) (\<lambda>r. map_option average (glucose r)) ds,
      sleep_glucose = sleep_glucose acc
        @ both_truthy (\<lambda>r. sleepHours (whoop r)) (\<lambda>r. map_option average (glucose r)) ds,
      exercise_glucose = exercise_glucose acc
        @ map (\<lambda>(x, y). (fl (x / 60), y))
            (both_truthy (\<lambda>r. totalActivityDuration (garmin r))
               (\<lambda>r. map_option average (glucose r)) ds),
      sleep_recovery = sleep_recovery acc
        @ both_truthy (\<lambda>r. sleepHours (whoop r)) (\<lambda>r. recoveryScore (whoop r)) ds,
      hrv_sleep = hrv_sleep acc
        @ both_truthy (\<lambda>r. hrvMs (whoop r)) (\<lambda>r. sleepHours (whoop r)) ds,
      steps_recovery = steps_recovery acc
        @ both_truthy (\<lambda>r. steps (garmin r)) (\<lambda>r. recoveryScore (whoop r)) ds\<rparr>"
proof (induction ds arbitrary: acc)
  case Nil
  show ?case by (simp add: both_truthy_def List.map_filter_def)
next
  case (Cons r ds)
  show ?case
    unfolding foldl_Cons Cons.IH
    by (simp add: collect_pairs_def Let_def append_if_truthy_pair both_truthy_def
        map_filter_Cons split: option.splits)
qed

text \<open>
  Claim C5. For each of the seven variable pairs, the collected list holds the values of
  the records in which both values are present and truthy (a value of 0 counts as absent),
  in the order of the records; for the activity pair the stored duration is divided by 60
  (a floating-point division);
  the reported \<^verbatim>\<open>dataPoints\<close> is the length of the list.
\<close>

theorem paired_data_both_truthy:
  "steps_sleep (paired_data d)
     = both_truthy (\<lambda>r. steps (garmin r)) (\<lambda>r. sleepHours (whoop r)) d
   \<and> steps_glucose (paired_data d)
     = both_truthy (\<lambda>r. steps (garmin r)) (\<lambda>r. map_option average (glucose r)) d
   \<and> sleep_glucose (paired_data d)
     = both_truthy (\<lambda>r. sleepHours (whoop r)) (\<lambda>r. map_option average (glucose r)) d
   \<and> exercise_glucose (paired_data d)
     = map (\<lambda>(x, y). (fl (x / 60), y))
         (both_truthy (\<lambda>r. totalActivityDuration (garmin r))
            (\<lambda>r. map_option average (glucose r)) d)
   \<and> sleep_recovery (paired_data d)
     = both_truthy (\<lambda>r. sleepHours (whoop r)) (\<lambda>r. recoveryScore (whoop r)) d
   \<and> hrv_sleep (paired_data d)
     = both_truthy (\<lambda>r. hrvMs (whoop r)) (\<lambda>r. sleepHours (whoop r)) d
   \<and> steps_recovery (paired_data d)
     = both_truthy (\<lambda>r. steps (garmin r)) (\<lambda>r. recoveryScore (whoop r)) d
   \<and> dataPoints (steps_vs_sleep (calculate_correlations d)) = length (steps_sleep (paired_data d))
   \<and> dataPoints (steps_vs_glucose (calculate_correlations d)) = length (steps_glucose (paired_data d))
   \<and> dataPoints (sleep_vs_glucose (calculate_correlations d)) = length (sleep_glucose (paired_data d))
   \<and> dataPoints (exercise_vs_glucose (calculate_correlations d))
     = length (exercise_glucose (paired_data d))
   \<and> dataPoints (sleep_vs_recovery (calculate_correlations d))
     = length (sleep_recovery (paired_data d))
   \<and> dataPoints (hrv_vs_sleep (calculate_correlations d)) = length (hrv_sleep (paired_data d))
   \<and> dataPoints (steps_vs_recovery (calculate_correlations d))
     = length (steps_recovery (paired_data d))"
  by (simp add: paired_data_def foldl_collect_pairs calculate_correlations_def Let_def
      result_of_def)

subsection \<open>The recovery tracker, date by date\<close>

text \<open>
  The sub-record of a date after the three loops is the fold of the date's own records
  over the empty object: records of other dates do not touch it.
\<close>

lemma sub_record_stream_step:
  "sub_record empty_whoop (stream_step write daily r) d
     = day_step write d (sub_record empty_whoop daily d) r"
  by (simp add: stream_step_def setdefault_def sub_record_def day_step_def on_date_def
      update_conv' split: option.splits)

lemma sub_record_foldl_stream_step:
  "sub_record empty_whoop (foldl (stream_step write) daily rs) d
     = foldl (day_step write d) (sub_record empty_whoop daily d) rs"
  by (induction rs arbitrary: daily) (simp_all add: sub_record_stream_step)

lemma sub_record_process_whoop_data:
  "sub_record empty_whoop (process_whoop_data w) d
     = foldl (day_step write_workout d)
         (foldl (day_step write_sleep d)
            (foldl (day_step write_recovery d) empty_whoop (recovery w))
            (sleep w))
         (workout w)"
proof -
  have e: "sub_record empty_whoop [] d = empty_whoop"
    by (simp add: sub_record_def)
  show ?thesis
    unfolding process_whoop_data_def sub_record_foldl_stream_step e ..
qed

lemma foldl_day_step_preserves:
  assumes "\<And>sc w. f (write sc w) = f w"
  shows "f (foldl (day_step write d) w0 rs) = f w0"
  by (induction rs arbitrary: w0) (simp_all add: day_step_def assms split: option.splits)

lemma strain_write_recovery: "strain (write_recovery sc w) = strain w"
  by (simp add: write_recovery_def Let_def split: option.splits)

lemma strain_write_sleep: "strain (write_sleep sc w) = strain w"
  by (simp add: write_sleep_def Let_def)

lemma hrvMs_write_sleep: "hrvMs (write_sleep sc w) = hrvMs w"
  by (simp add: write_sleep_def Let_def)

lemma hrvMs_write_workout: "hrvMs (write_workout sc w) = hrvMs w"
  by (simp add: write_workout_def Let_def)

lemma map_filter_snoc:
  "List.map_filter f (xs @ [x]) = List.map_filter f xs @ (case f x of None \<Rightarrow> [] | Some y \<Rightarrow> [y])"
  by (simp add: List.map_filter_def split: option.splits)

lemma strain_foldl_workout:
  "strain (foldl (day_step write_workout d) w0 rs)
     = (let evs = List.map_filter
                    (\<lambda>r. map_option (\<lambda>sc. or_zero (score_strain sc)) (on_date d r)) rs
        in if evs = [] then strain w0
           else Some (Max (set ((case strain w0 of None \<Rightarrow> 0 | Some c \<Rightarrow> c) # evs))))"
proof (induction rs rule: rev_induct)
  case Nil
  show ?case by (simp add: List.map_filter_def)
next
  case (snoc r rs)
  show ?case
  proof (cases "on_date d r")
    case None
    with snoc show ?thesis
      by (simp add: day_step_def map_filter_snoc Let_def)
  next
    case (Some sc)
    with snoc show ?thesis
      by (auto simp: day_step_def map_filter_snoc Let_def write_workout_def max.commute
          Max_insert max.assoc split: option.splits)
  qed
qed

lemma hrvMs_foldl_recovery:
  "hrvMs (foldl (day_step write_recovery d) w0 rs)
     = (let raws = List.map_filter (\<lambda>r. Option.bind (on_date d r) hrv_rmssd_milli) rs
        in if raws = [] then hrvMs w0 else Some (hrv_ms (last raws)))"
proof (induction rs rule: rev_induct)
  case Nil
  show ?case by (simp add: List.map_filter_def)
next
  case (snoc r rs)
  show ?case
  proof (cases "on_date d r")
    case None
    with snoc show ?thesis
      by (simp add: day_step_def map_filter_snoc Let_def)
  next
    case (Some sc)
    with snoc show ?thesis
      by (cases "hrv_rmssd_milli sc")
        (simp_all add: day_step_def map_filter_snoc Let_def write_recovery_def)
  qed
qed

lemma Max_Cons_zero:
  fixes xs :: "rat list"
  assumes "xs \<noteq> []" and "\<forall>v \<in> set xs. 0 \<le> v"
  shows "Max (set (0 # xs)) = Max (set xs)"
proof -
  from assms obtain x where "x \<in> set xs"
    by (cases xs) auto
  with assms have "0 \<le> Max (set xs)"
    by (meson List.finite_set Max_ge order_trans)
  with assms show ?thesis
    by (simp add: max_def)
qed

text \<open>The floats nearest to 8.3, 45.2, 0.0452 and 0.04555, and two products by 1000.\<close>

lemma fl_83_10: "fl (83 / 10) = (2336242306698445 / 281474976710656 :: rat)"
  by (rule fl_near [where e = "- 49" and m = "4672484613396890" and p = "1 / 562949953421312"])
    (simp_all add: pow2_neg_numeral pow2_numeral power2_eq_square)

lemma fl_452_10: "fl (452 / 10) = (3180667236830413 / 70368744177664 :: rat)"
  by (rule fl_near [where e = "- 47" and m = "6361334473660826" and p = "1 / 140737488355328"])
    (simp_all add: pow2_neg_numeral pow2_numeral power2_eq_square)

lemma fl_452_10000: "fl (452 / 10000) = (6514006501028685 / 144115188075855872 :: rat)"
  by (rule fl_near [where e = "- 57" and m = "6514006501028685" and p = "1 / 144115188075855872"])
    (simp_all add: pow2_neg_numeral pow2_numeral power2_eq_square)

lemma fl_452_10000_ms: "fl ((6514006501028685 / 144115188075855872) * 1000) = (6361334473660825 / 140737488355328 :: rat)"
  by (rule fl_near [where e = "- 47" and m = "6361334473660825" and p = "1 / 140737488355328"])
    (simp_all add: pow2_neg_numeral pow2_numeral power2_eq_square)

lemma fl_4555_100000: "fl (4555 / 100000) = (6564446816855235 / 144115188075855872 :: rat)"
  by (rule fl_near [where e = "- 57" and m = "6564446816855235" and p = "1 / 144115188075855872"])
    (simp_all add: pow2_neg_numeral pow2_numeral power2_eq_square)

lemma fl_4555_100000_ms: "fl ((6564446816855235 / 144115188075855872) * 1000) = (3205296297292595 / 70368744177664 :: rat)"
  by (rule fl_near [where e = "- 47" and m = "6410592594585190" and p = "1 / 140737488355328"])
    (simp_all add: pow2_neg_numeral pow2_numeral power2_eq_square)

lemma fl_91_2: "fl (91 / 2) = 91 / 2"
  by (rule fl_near [where e = "- 47" and m = "6403555720167424" and p = "1 / 140737488355328"])
    (simp_all add: pow2_neg_numeral)

lemma hrv_ms_examples:
  "hrv_ms (fl (452 / 10)) = fl (452 / 10)"
  "hrv_ms (fl (452 / 10000)) = fl (452 / 10)"
  "hrv_ms (fl (4555 / 100000)) = 91 / 2"
proof -
  have t: "fl (of_int 452 / 10 ^ 1) = 3180667236830413 / 70368744177664"
    using fl_452_10 by simp
  have u: "fl (of_int 455 / 10 ^ 1) = 91 / 2"
    using fl_91_2 by simp
  have a: "fl_round (3180667236830413 / 70368744177664) 1 = 3180667236830413 / 70368744177664"
    by (rule fl_round_near [where m = 452, OF _ _ t]) simp_all
  have b: "fl_round (6361334473660825 / 140737488355328) 1 = 3180667236830413 / 70368744177664"
    by (rule fl_round_near [where m = 452, OF _ _ t]) simp_all
  have c: "fl_round (3205296297292595 / 70368744177664) 1 = 91 / 2"
    by (rule fl_round_near [where m = 455, OF _ _ u]) simp_all
  have g: "1 < (3180667236830413 / 70368744177664 :: rat)"
    "\<not> 1 < (6514006501028685 / 144115188075855872 :: rat)"
    "\<not> 1 < (6564446816855235 / 144115188075855872 :: rat)"
    by simp_all
  show "hrv_ms (fl (452 / 10)) = fl (452 / 10)"
    by (simp only: hrv_ms_def fl_452_10 g if_True a)
  show "hrv_ms (fl (452 / 10000)) = fl (452 / 10)"
    by (simp only: hrv_ms_def fl_452_10 fl_452_10000 g if_False fl_452_10000_ms b)
  show "hrv_ms (fl (4555 / 100000)) = 91 / 2"
    by (simp only: hrv_ms_def fl_4555_100000 g if_False fl_4555_100000_ms c)
qed

text \<open>
  Claim C7. When workout records with a score object fall on a date, the strain of the
  date is the maximum of the per-event strain values, a missing strain counting as 0,
  and not their sum. The running maximum starts from 0, so the result is the maximum of
  0 and the per-event values; for strain values that are not negative, which is the scale
  of the tracker, this is the maximum of the per-event values.
\<close>

theorem strain_is_max_of_events:
  "strain (sub_record empty_whoop (process_whoop_data w) d)
     = (if workout_strains w d = [] then None else Some (Max (set (0 # workout_strains w d))))
   \<and> (workout_strains w d \<noteq> [] \<and> (\<forall>v \<in> set (workout_strains w d). 0 \<le> v)
        \<longrightarrow> strain (sub_record empty_whoop (process_whoop_data w) d)
              = Some (Max (set (workout_strains w d))))"
proof -
  have s0: "strain (foldl (day_step write_sleep d)
            (foldl (day_step write_recovery d) empty_whoop (recovery w)) (sleep w)) = None"
    by (simp add: foldl_day_step_preserves [where f = strain] strain_write_sleep
        strain_write_recovery empty_whoop_def)
  have a: "strain (sub_record empty_whoop (process_whoop_data w) d)
     = (if workout_strains w d = [] then None else Some (Max (set (0 # workout_strains w d))))"
    unfolding sub_record_process_whoop_data strain_foldl_workout s0 workout_strains_def Let_def
    by simp
  show ?thesis
    using a Max_Cons_zero [of "workout_strains w d"] by simp
qed

text \<open>
  Two workouts on one day with strains 5.0 and 8.3, the latter as the float nearest to it:
  the strain of the day is 8.3.
\<close>

theorem strain_is_max_of_events_witness:
  "strain (sub_record empty_whoop
     (process_whoop_data
        \<lparr>recovery = [], sleep = [],
         workout =
           [\<lparr>created_at = Some ''2024-03-05T07:30:00.000Z'',
             score = Some \<lparr>score_strain = Some 5\<rparr>\<rparr>,
            \<lparr>created_at = Some ''2024-03-05T18:00:00.000Z'',
             score = Some \<lparr>score_strain = Some (fl (83 / 10))\<rparr>\<rparr>]\<rparr>)
     ''2024-03-05'')
   = Some (fl (83 / 10))"
  (is "strain (sub_record empty_whoop (process_whoop_data ?W) ?d) = _")
proof -
  have evs: "workout_strains ?W ?d = [5, fl (83 / 10)]"
    by (simp add: workout_strains_def map_filter_simps on_date_def record_date_def
        or_zero_def)
  have pos: "\<forall>v \<in> set [5, fl (83 / 10)]. 0 \<le> v"
    by (simp add: fl_83_10)
  have m: "Max (set [5, fl (83 / 10)]) = fl (83 / 10)"
    by (simp add: fl_83_10)
  from strain_is_max_of_events [of ?W ?d]
  have "strain (sub_record empty_whoop (process_whoop_data ?W) ?d)
          = Some (Max (set (workout_strains ?W ?d)))"
    unfolding evs using pos by blast
  then show ?thesis
    unfolding evs m .
qed

text \<open>
  Claim C8. The HRV of a date is the normalised raw value of the date's last recovery
  record that carries one: the raw value times 1000 when it is at most 1, the raw value
  itself when it is above 1, rounded to 1 decimal; the product and the rounding are the
  floating-point ones of the code. A raw 45.2 gives 45.2 and a raw 0.0452 gives 45.2; a
  raw 0.04555 gives 45.5, the product being the float just below 45.55.
\<close>

theorem hrv_normalised:
  "hrvMs (sub_record empty_whoop (process_whoop_data w) d)
     = (if recovery_hrvs w d = [] then None
        else Some (fl_round (if last (recovery_hrvs w d) \<le> 1
                             then fl (last (recovery_hrvs w d) * 1000)
                             else last (recovery_hrvs w d)) 1))
   \<and> hrv_ms raw = fl_round (if raw \<le> 1 then fl (raw * 1000) else raw) 1
   \<and> hrv_ms (fl (452 / 10)) = fl (452 / 10)
   \<and> hrv_ms (fl (452 / 10000)) = fl (452 / 10)
   \<and> hrv_ms (fl (4555 / 100000)) = 91 / 2"
proof -
  have n: "hrv_ms x = fl_round (if x \<le> 1 then fl (x * 1000) else x) 1" for x
    by (simp add: hrv_ms_def not_le [symmetric])
  have "hrvMs (sub_record empty_whoop (process_whoop_data w) d)
      = hrvMs (foldl (day_step write_recovery d) empty_whoop (recovery w))"
    unfolding sub_record_process_whoop_data
    by (simp add: foldl_day_step_preserves [where f = hrvMs] hrvMs_write_sleep
        hrvMs_write_workout)
  then have "hrvMs (sub_record empty_whoop (process_whoop_data w) d)
     = (if recovery_hrvs w d = [] then None
        else Some (fl_round (if last (recovery_hrvs w d) \<le> 1
                             then fl (last (recovery_hrvs w d) * 1000)
                             else last (recovery_hrvs w d)) 1))"
    unfolding hrvMs_foldl_recovery recovery_hrvs_def Let_def n
    by (simp add: empty_whoop_def)
  with n [of raw] hrv_ms_examples show ?thesis
    by blast
qed

text \<open>A recovery record with the raw value 0.0452, in the units of seconds.\<close>

theorem hrv_normalised_witness:
  "hrvMs (sub_record empty_whoop
     (process_whoop_data
        \<lparr>recovery =
           [\<lparr>created_at = Some ''2024-03-05T07:12:00.000Z'',
             score = Some \<lparr>recovery_score = Some 66,
                           hrv_rmssd_milli = Some (fl (452 / 10000)),
                           resting_heart_rate = Some 52\<rparr>\<rparr>],
         sleep = [], workout = []\<rparr>)
     ''2024-03-05'')
   = Some (fl (452 / 10))"
  (is "hrvMs (sub_record empty_whoop (process_whoop_data ?W) ?d) = _")
proof -
  have raws: "recovery_hrvs ?W ?d = [fl (452 / 10000)]"
    by (simp add: recovery_hrvs_def map_filter_simps on_date_def record_date_def)
  from hrv_normalised [of ?W ?d "fl (452 / 10000)"]
  have "hrvMs (sub_record empty_whoop (process_whoop_data ?W) ?d)
          = Some (hrv_ms (fl (452 / 10000)))"
    unfolding raws by simp
  then show ?thesis
    by (simp only: hrv_ms_examples)
qed

subsection \<open>Optimal ranges of biomarkers\<close>

lemma length_split_from:
  "length (split_from sep cur s) = Suc (length (filter (\<lambda>c. c = sep) s))"
  by (induction s arbitrary: cur) simp_all

lemma range_parts_two_dash:
  assumes "range_parts s = [p0, p1]"
  shows "CHR ''-'' \<in> set s" and "s \<noteq> []"
proof -
  have "length (range_parts s) = 2"
    using assms by simp
  then have "filter (\<lambda>c. c = CHR ''-'') (filter (\<lambda>c. c \<noteq> CHR '' '') s) \<noteq> []"
    by (auto simp: range_parts_def str_split_def length_split_from)
  then obtain c where "c \<in> set (filter (\<lambda>c. c = CHR ''-'') (filter (\<lambda>c. c \<noteq> CHR '' '') s))"
    by (meson last_in_set)
  then show "CHR ''-'' \<in> set s"
    by auto
  then show "s \<noteq> []"
    by auto
qed

lemma parse_no_dash: "CHR ''-'' \<notin> set s \<Longrightarrow> parse_optimal_range pf (Some s) = (None, None)"
  by (simp add: parse_optimal_range_def)

lemma parse_wrong_count:
  "length (range_parts s) \<noteq> 2 \<Longrightarrow> parse_optimal_range pf (Some s) = (None, None)"
  by (simp add: parse_optimal_range_def Let_def)

lemma parse_two:
  assumes "range_parts s = [p0, p1]"
  shows "parse_optimal_range pf (Some s) =
     (case to_float pf p0 of
        Inl e \<Rightarrow> (None, None)
      | Inr lo \<Rightarrow> (case to_float pf p1 of Inl e \<Rightarrow> (lo, None) | Inr hi \<Rightarrow> (lo, hi)))"
  using assms range_parts_two_dash [OF assms]
  by (simp add: parse_optimal_range_def Let_def split: sum.splits)

lemma biomarker_results_fields:
  assumes "r \<in> set (biomarker_results pf cname b)"
  shows "(optimalMin r, optimalMax r) = parse_optimal_range pf (result_optimalRange r)
       \<and> result_inRange r = in_range (optimalMin r) (optimalMax r) (result_value r)"
  using assms
  by (auto simp: biomarker_results_def List.map_filter_def Let_def
      split: prod.splits option.splits if_splits)

lemma range_parts_70_99: "range_parts ''70-99'' = [''70'', ''99'']"
  by (simp add: range_parts_def str_split_def)

lemma dec_float_70_99: "dec_float ''70'' = Some 70" "dec_float ''99'' = Some 99"
  by (simp_all add: dec_float_def is_digit_def digits_value_def less_eq_char_def fl_numeral)

text \<open>
  Claim C9 says that every parse failure leaves both bounds null. The text \<^verbatim>\<open>70-\<close> has
  no upper bound: the guard \<^verbatim>\<open>float(parts[1]) if parts[1] else None\<close> makes
  \<^verbatim>\<open>optimalMax\<close> null and keeps \<^verbatim>\<open>optimalMin = 70.0\<close>. The text \<^verbatim>\<open>70-abc\<close> ends the
  same way: \<^verbatim>\<open>float("abc")\<close> raises after \<^verbatim>\<open>optimal_min\<close> was assigned, and the handler
  is \<^verbatim>\<open>except: pass\<close>.
\<close>

theorem parse_failure_keeps_lower_bound:
  "parse_optimal_range dec_float (Some ''70-'') = (Some 70, None)
   \<and> parse_optimal_range dec_float (Some ''70-abc'') = (Some 70, None)"
  by (simp add: parse_optimal_range_def range_parts_def str_split_def to_float_def
      dec_float_def is_digit_def digits_value_def less_eq_char_def fl_numeral)

text \<open>
  Claim C9, amended. Parsing an optimal range raises nothing: the result is always a pair
  of optional bounds. Both bounds are null when the text is null, has no \<^verbatim>\<open>-\<close>, does
  not split into exactly two segments, has a first segment that is not numeric, or has an
  empty first segment and a second one that is not numeric. An empty segment leaves its
  own bound null while the other segment is parsed. Two numeric segments give the two
  bounds. \<^verbatim>\<open>inRange\<close> is null exactly when a bound is null, and the membership test
  otherwise; every result of \<^verbatim>\<open>process_biomarkers\<close> carries the bounds parsed from its
  range text and the flag computed from them. \<^verbatim>\<open>70-99\<close> gives 70.0 and 99.0;
  \<^verbatim>\<open>invalid\<close> gives two null bounds and a null flag.
\<close>

theorem parse_optimal_range_cases:
  "parse_optimal_range pf None = (None, None)
   \<and> (CHR ''-'' \<notin> set s \<longrightarrow> parse_optimal_range pf (Some s) = (None, None))
   \<and> (length (range_parts s) \<noteq> 2 \<longrightarrow> parse_optimal_range pf (Some s) = (None, None))
   \<and> (range_parts s = [p0, p1] \<and> p0 \<noteq> [] \<and> pf p0 = None
        \<longrightarrow> parse_optimal_range pf (Some s) = (None, None))
   \<and> (range_parts s = [[], p1] \<and> pf p1 = None
        \<longrightarrow> parse_optimal_range pf (Some s) = (None, None))
   \<and> (range_parts s = [p0, []] \<and> p0 \<noteq> [] \<and> pf p0 = Some a
        \<longrightarrow> parse_optimal_range pf (Some s) = (Some a, None))
   \<and> (range_parts s = [[], p1] \<and> p1 \<noteq> [] \<and> pf p1 = Some b
        \<longrightarrow> parse_optimal_range pf (Some s) = (None, Some b))
   \<and> (range_parts s = [p0, p1] \<and> p0 \<noteq> [] \<and> p1 \<noteq> [] \<and> pf p0 = Some a \<and> pf p1 = Some b
        \<longrightarrow> parse_optimal_range pf (Some s) = (Some a, Some b))
   \<and> (in_range lo hi v = None \<longleftrightarrow> lo = None \<or> hi = None)
   \<and> in_range (Some a) (Some b) v = Some (a \<le> v \<and> v \<le> b)
   \<and> (\<forall>r \<in> set (process_biomarkers pf doc).
         (optimalMin r, optimalMax r) = parse_optimal_range pf (result_optimalRange r)
       \<and> result_inRange r = in_range (optimalMin r) (optimalMax r) (result_value r))
   \<and> (pf ''70'' = Some 70 \<and> pf ''99'' = Some 99
        \<longrightarrow> parse_optimal_range pf (Some ''70-99'') = (Some 70, Some 99))
   \<and> parse_optimal_range pf (Some ''invalid'') = (None, None)
   \<and> in_range None None v = None"
proof (intro conjI)
  show "parse_optimal_range pf None = (None, None)"
    by (simp add: parse_optimal_range_def)
  show "CHR ''-'' \<notin> set s \<longrightarrow> parse_optimal_range pf (Some s) = (None, None)"
    by (simp add: parse_no_dash)
  show "length (range_parts s) \<noteq> 2 \<longrightarrow> parse_optimal_range pf (Some s) = (None, None)"
    by (simp add: parse_wrong_count)
  show "range_parts s = [p0, p1] \<and> p0 \<noteq> [] \<and> pf p0 = None
        \<longrightarrow> parse_optimal_range pf (Some s) = (None, None)"
    by (simp add: parse_two to_float_def)
  show "range_parts s = [[], p1] \<and> pf p1 = None
        \<longrightarrow> parse_optimal_range pf (Some s) = (None, None)"
    by (simp add: parse_two to_float_def)
  show "range_parts s = [p0, []] \<and> p0 \<noteq> [] \<and> pf p0 = Some a
        \<longrightarrow> parse_optimal_range pf (Some s) = (Some a, None)"
    by (simp add: parse_two to_float_def)
  show "range_parts s = [[], p1] \<and> p1 \<noteq> [] \<and> pf p1 = Some b
        \<longrightarrow> parse_optimal_range pf (Some s) = (None, Some b)"
    by (simp add: parse_two to_float_def)
  show "range_parts s = [p0, p1] \<and> p0 \<noteq> [] \<and> p1 \<noteq> [] \<and> pf p0 = Some a \<and> pf p1 = Some b
        \<longrightarrow> parse_optimal_range pf (Some s) = (Some a, Some b)"
    by (simp add: parse_two to_float_def)
  show "in_range lo hi v = None \<longleftrightarrow> lo = None \<or> hi = None"
    by (simp add: in_range_def split: option.splits)
  show "in_range (Some a) (Some b) v = Some (a \<le> v \<and> v \<le> b)"
    by (simp add: in_range_def)
  show "\<forall>r \<in> set (process_biomarkers pf doc).
         (optimalMin r, optimalMax r) = parse_optimal_range pf (result_optimalRange r)
       \<and> result_inRange r = in_range (optimalMin r) (optimalMax r) (result_value r)"
    by (auto simp: process_biomarkers_def dest: biomarker_results_fields)
  show "pf ''70'' = Some 70 \<and> pf ''99'' = Some 99
        \<longrightarrow> parse_optimal_range pf (Some ''70-99'') = (Some 70, Some 99)"
    by (simp add: parse_two [OF range_parts_70_99] to_float_def)
  show "parse_optimal_range pf (Some ''invalid'') = (None, None)"
    by (simp add: parse_no_dash)
  show "in_range None None v = None"
    by (simp add: in_range_def)
qed

text \<open>
  A panel with one biomarker of range \<^verbatim>\<open>70-99\<close> and the measurements 85 and 120, and one
  biomarker of range \<^verbatim>\<open>invalid\<close>.
\<close>

theorem parse_optimal_range_cases_witness:
  "parse_optimal_range dec_float (Some ''70-99'') = (Some 70, Some 99)
   \<and> map (\<lambda>r. (optimalMin r, optimalMax r, result_inRange r))
       (process_biomarkers dec_float
          \<lparr>categories =
             [\<lparr>category_name = Some ''Metabolic'',
               biomarkers =
                 [\<lparr>biomarker_name = Some ''Glucose'', unit = Some ''mg/dL'',
                   optimalRange = Some ''70-99'',
                   measurements =
                     [\<lparr>measurement_date = Some ''2024-01-10'', measurement_value = Some 85,
                       provider = Some ''Lab''\<rparr>,
                      \<lparr>measurement_date = Some ''2024-06-10'', measurement_value = Some 120,
                       provider = Some ''Lab''\<rparr>],
                   results = []\<rparr>,
                  \<lparr>biomarker_name = Some ''Insulin'', unit = Some ''uIU/mL'',
                   optimalRange = Some ''invalid'',
                   measurements =
                     [\<lparr>measurement_date = Some ''2024-01-10'', measurement_value = Some 5,
                       provider = None\<rparr>],
                   results = []\<rparr>]\<rparr>]\<rparr>)
     = [(Some 70, Some 99, Some True), (Some 70, Some 99, Some False), (None, None, None)]"
proof -
  have p: "parse_optimal_range dec_float (Some ''70-99'') = (Some 70, Some 99)"
    using parse_optimal_range_cases [of dec_float] dec_float_70_99 by blast
  have q: "parse_optimal_range dec_float (Some ''invalid'') = (None, None)"
    by (simp add: parse_no_dash)
  show ?thesis
    by (simp add: p q process_biomarkers_def biomarker_results_def map_filter_simps in_range_def)
qed

subsection \<open>The summary\<close>














subsection \<open>A constant variable in exact arithmetic\<close>

text \<open>
  In exact arithmetic the routine would do what claim C4 says: the coefficient is null
  exactly when there are fewer than 3 pairs or one of the two variables is constant, and
  a coefficient that is not null lies between -1 and 1. This is a property of the
  reference formulation \<open>pearson_correlation\<close>, not of the code.
\<close>

lemma sum_list_map_nth: "sum_list (map f xs) = (\<Sum>i<length xs. f (xs ! i))"
proof -
  have "sum_list (map f xs) = (\<Sum>i = 0..<length (map f xs). map f xs ! i)"
    by (rule sum_list_sum_nth)
  also have "\<dots> = (\<Sum>i<length xs. f (xs ! i))"
    by (simp add: atLeast0LessThan)
  finally show ?thesis .
qed

lemma sum_list_upt: "sum_list (map f [0..<n]) = (\<Sum>i<n. f i)"
  by (simp add: interv_sum_list_conv_sum_set_nat atLeast0LessThan)

lemma pearson_correlation_sums:
  "pearson_correlation pairs =
     (let n = length pairs;
          mx = (\<Sum>i<n. fst (pairs ! i)) / real n;
          my = (\<Sum>i<n. snd (pairs ! i)) / real n;
          sxx = (\<Sum>i<n. (fst (pairs ! i) - mx)\<^sup>2);
          syy = (\<Sum>i<n. (snd (pairs ! i) - my)\<^sup>2);
          sxy = (\<Sum>i<n. (fst (pairs ! i) - mx) * (snd (pairs ! i) - my))
      in if n < 3 then None
         else if sqrt sxx = 0 \<or> sqrt syy = 0 then None
         else Some (py_round (sxy / (sqrt sxx * sqrt syy)) 3))"
proof -
  have a: "sum_list (map fst pairs) = (\<Sum>i<length pairs. fst (pairs ! i))"
    by (rule sum_list_map_nth)
  have b: "sum_list (map snd pairs) = (\<Sum>i<length pairs. snd (pairs ! i))"
    by (rule sum_list_map_nth)
  have c: "sum_list (map (\<lambda>xi. (xi - m)\<^sup>2) (map fst pairs))
             = (\<Sum>i<length pairs. (fst (pairs ! i) - m)\<^sup>2)" for m
    using sum_list_map_nth [of "\<lambda>p. (fst p - m)\<^sup>2" pairs] by (simp add: comp_def)
  have d: "sum_list (map (\<lambda>yi. (yi - m)\<^sup>2) (map snd pairs))
             = (\<Sum>i<length pairs. (snd (pairs ! i) - m)\<^sup>2)" for m
    using sum_list_map_nth [of "\<lambda>p. (snd p - m)\<^sup>2" pairs] by (simp add: comp_def)
  have e: "sum_list (map (\<lambda>i. (map fst pairs ! i - m) * (map snd pairs ! i - m')) [0..<length pairs])
             = (\<Sum>i<length pairs. (fst (pairs ! i) - m) * (snd (pairs ! i) - m'))" for m m'
    unfolding sum_list_upt by (rule sum.cong) simp_all
  show ?thesis
    unfolding pearson_correlation_def Let_def a b c d e by simp
qed

lemma round_half_even_between:
  fixes x :: real
  assumes "of_int a \<le> x" and "x \<le> of_int b"
  shows "a \<le> round_half_even x" and "round_half_even x \<le> b"
proof -
  have f: "a \<le> \<lfloor>x\<rfloor>"
    using assms(1) by (simp add: le_floor_iff)
  have g: "\<lfloor>x\<rfloor> \<le> b"
    using assms(2) by (simp add: floor_le_iff)
  have h: "\<lfloor>x\<rfloor> + 1 \<le> b" if "1 / 2 \<le> x - of_int \<lfloor>x\<rfloor>"
  proof -
    from that have "of_int \<lfloor>x\<rfloor> < x" by linarith
    with assms(2) have "of_int \<lfloor>x\<rfloor> < (of_int b :: real)" by linarith
    then show ?thesis by simp
  qed
  show "a \<le> round_half_even x"
    using f by (simp add: round_half_even_def Let_def)
  show "round_half_even x \<le> b"
    using g h by (auto simp: round_half_even_def Let_def not_less)
qed

lemma py_round_unit_interval:
  assumes "- 1 \<le> q" and "q \<le> 1"
  shows "- 1 \<le> py_round q 3" and "py_round q 3 \<le> 1"
proof -
  have a: "of_int (- 1000) \<le> q * 10 ^ 3" and b: "q * 10 ^ 3 \<le> of_int 1000"
    using assms by simp_all
  have "- 1000 \<le> round_half_even (q * 10 ^ 3)" and "round_half_even (q * 10 ^ 3) \<le> 1000"
    using round_half_even_between [OF a b] by simp_all
  then have "(- 1000 :: real) \<le> of_int (round_half_even (q * 10 ^ 3))"
    and "of_int (round_half_even (q * 10 ^ 3)) \<le> (1000 :: real)"
    by linarith+
  then show "- 1 \<le> py_round q 3" and "py_round q 3 \<le> 1"
    by (simp_all add: py_round_def)
qed

lemma cauchy_schwarz_sum:
  fixes a b :: "nat \<Rightarrow> real"
  shows "(\<Sum>i<n. a i * b i)\<^sup>2 \<le> (\<Sum>i<n. (a i)\<^sup>2) * (\<Sum>i<n. (b i)\<^sup>2)"
proof (cases "(\<Sum>i<n. (b i)\<^sup>2) = 0")
  case True
  then have "\<forall>i\<in>{..<n}. (b i)\<^sup>2 = 0"
    by (subst (asm) sum_nonneg_eq_0_iff) simp_all
  then have "(\<Sum>i<n. a i * b i) = 0"
    by (intro sum.neutral) simp
  with True show ?thesis by simp
next
  case False
  define B where "B = (\<Sum>i<n. (b i)\<^sup>2)"
  define A where "A = (\<Sum>i<n. (a i)\<^sup>2)"
  define C where "C = (\<Sum>i<n. a i * b i)"
  have Bpos: "0 < B"
    using False by (simp add: B_def sum_nonneg less_le)
  have "0 \<le> (\<Sum>i<n. (B * a i - C * b i)\<^sup>2)"
    by (rule sum_nonneg) simp
  also have "(\<Sum>i<n. (B * a i - C * b i)\<^sup>2)
      = (\<Sum>i<n. B\<^sup>2 * (a i)\<^sup>2 - 2 * B * C * (a i * b i) + C\<^sup>2 * (b i)\<^sup>2)"
    by (rule sum.cong) (simp_all add: power2_diff power_mult_distrib algebra_simps)
  also have "\<dots> = B\<^sup>2 * A - 2 * B * C * C + C\<^sup>2 * B"
    by (simp add: sum.distrib sum_subtractf sum_distrib_left A_def B_def C_def)
  also have "\<dots> = B * (B * A - C\<^sup>2)"
    by (simp add: power2_eq_square algebra_simps)
  finally have "0 \<le> B * (B * A - C\<^sup>2)" .
  with Bpos have "0 \<le> B * A - C\<^sup>2"
    by (simp add: zero_le_mult_iff)
  then show ?thesis
    by (simp add: A_def B_def C_def mult.commute)
qed

lemma sum_squares_zero_iff_constant:
  fixes x :: "nat \<Rightarrow> real"
  assumes "0 < n"
  shows "(\<Sum>i<n. (x i - (\<Sum>j<n. x j) / real n)\<^sup>2) = 0 \<longleftrightarrow> (\<forall>i<n. \<forall>j<n. x i = x j)"
proof
  define M where "M = (\<Sum>j<n. x j) / real n"
  assume "(\<Sum>i<n. (x i - (\<Sum>j<n. x j) / real n)\<^sup>2) = 0"
  then have "(\<Sum>i<n. (x i - M)\<^sup>2) = 0"
    by (simp only: M_def)
  then have "\<forall>i\<in>{..<n}. (x i - M)\<^sup>2 = 0"
    by (subst (asm) sum_nonneg_eq_0_iff) simp_all
  then have "\<forall>i<n. x i = M"
    by simp
  then show "\<forall>i<n. \<forall>j<n. x i = x j"
    by simp
next
  define c where "c = x 0"
  assume "\<forall>i<n. \<forall>j<n. x i = x j"
  with assms have c: "\<forall>j<n. x j = c"
    unfolding c_def by blast
  then have "(\<Sum>j<n. x j) = (\<Sum>j<n. c)"
    by (intro sum.cong) simp_all
  then have m: "(\<Sum>j<n. x j) / real n = c"
    using assms by simp
  show "(\<Sum>i<n. (x i - (\<Sum>j<n. x j) / real n)\<^sup>2) = 0"
    unfolding m using c by (intro sum.neutral) simp
qed

lemma constant_set_iff_nth:
  "(\<forall>p\<in>set ps. \<forall>q\<in>set ps. f p = f q) \<longleftrightarrow> (\<forall>i<length ps. \<forall>j<length ps. f (ps ! i) = f (ps ! j))"
  by (simp add: all_set_conv_all_nth)

lemma pearson_correlation_exact:
  "(pearson_correlation pairs = None \<longleftrightarrow>
      length pairs < 3
      \<or> (\<forall>p\<in>set pairs. \<forall>q\<in>set pairs. fst p = fst q)
      \<or> (\<forall>p\<in>set pairs. \<forall>q\<in>set pairs. snd p = snd q))
   \<and> (\<forall>r. pearson_correlation pairs = Some r \<longrightarrow> - 1 \<le> r \<and> r \<le> 1)"
proof (cases "length pairs < 3")
  case True
  then show ?thesis
    by (simp add: pearson_correlation_def)
next
  case False
  define n where "n = length pairs"
  define mx where "mx = (\<Sum>i<n. fst (pairs ! i)) / real n"
  define my where "my = (\<Sum>i<n. snd (pairs ! i)) / real n"
  define sxx where "sxx = (\<Sum>i<n. (fst (pairs ! i) - mx)\<^sup>2)"
  define syy where "syy = (\<Sum>i<n. (snd (pairs ! i) - my)\<^sup>2)"
  define sxy where "sxy = (\<Sum>i<n. (fst (pairs ! i) - mx) * (snd (pairs ! i) - my))"
  from False have n: "0 < n" "\<not> n < 3"
    by (auto simp: n_def)
  have p: "pearson_correlation pairs =
      (if sqrt sxx = 0 \<or> sqrt syy = 0 then None
       else Some (py_round (sxy / (sqrt sxx * sqrt syy)) 3))"
    using n(2) by (simp add: pearson_correlation_sums Let_def n_def mx_def my_def sxx_def
        syy_def sxy_def)
  have zx: "sqrt sxx = 0 \<longleftrightarrow> (\<forall>p\<in>set pairs. \<forall>q\<in>set pairs. fst p = fst q)"
    using sum_squares_zero_iff_constant [OF n(1), of "\<lambda>i. fst (pairs ! i)"]
    by (simp add: sxx_def mx_def constant_set_iff_nth n_def)
  have zy: "sqrt syy = 0 \<longleftrightarrow> (\<forall>p\<in>set pairs. \<forall>q\<in>set pairs. snd p = snd q)"
    using sum_squares_zero_iff_constant [OF n(1), of "\<lambda>i. snd (pairs ! i)"]
    by (simp add: syy_def my_def constant_set_iff_nth n_def)
  have nn: "0 \<le> sxx" "0 \<le> syy"
    by (simp_all add: sxx_def syy_def sum_nonneg)
  have "sxy\<^sup>2 \<le> sxx * syy"
    unfolding sxy_def sxx_def syy_def by (rule cauchy_schwarz_sum)
  then have "sqrt (sxy\<^sup>2) \<le> sqrt (sxx * syy)"
    by (simp only: real_sqrt_le_iff)
  then have cs: "\<bar>sxy\<bar> \<le> sqrt sxx * sqrt syy"
    by (simp add: real_sqrt_mult)
  have b: "- 1 \<le> py_round (sxy / (sqrt sxx * sqrt syy)) 3
         \<and> py_round (sxy / (sqrt sxx * sqrt syy)) 3 \<le> 1"
    if "sqrt sxx \<noteq> 0" "sqrt syy \<noteq> 0"
  proof -
    from that nn have d: "0 < sqrt sxx * sqrt syy"
      by (simp add: less_le)
    with cs have "- 1 \<le> sxy / (sqrt sxx * sqrt syy)" and "sxy / (sqrt sxx * sqrt syy) \<le> 1"
      by (simp_all add: pos_le_divide_eq pos_divide_le_eq abs_le_iff)
    then show ?thesis
      by (simp add: py_round_unit_interval)
  qed
  have none: "pearson_correlation pairs = None \<longleftrightarrow> sqrt sxx = 0 \<or> sqrt syy = 0"
    by (simp add: p)
  have some: "\<forall>r. pearson_correlation pairs = Some r \<longrightarrow> - 1 \<le> r \<and> r \<le> 1"
    using b by (simp add: p)
  show ?thesis
    unfolding none zx zy using False some by blast
qed

subsection \<open>A constant variable in binary64 arithmetic\<close>

text \<open>
  Claim C4 says that the coefficient is null whenever one of the two variables is
  constant over all pairs. For three days with 7.1 hours of sleep and recovery scores of
  50, 60 and 70 this fails in floating-point arithmetic: the sum of three times 7.1 is
  rounded, the mean comes out one unit in the last place below 7.1, each centred value
  is \<open>2\<^sup>-\<^sup>5\<^sup>0\<close> instead of 0, and the denominator factor is not zero. The numerator is 0,
  so the routine returns the coefficient 0.0 where the claim says null.
\<close>

theorem pearson_correlation_f64_constant_variable:
  "pearson_correlation_f64 [(fl (71 / 10), 50), (fl (71 / 10), 60), (fl (71 / 10), 70)] = Some 0"
proof -
  have x: "fl (71 / 10) = (3996944669291315 / 562949953421312 :: rat)"
    by (rule fl_near [where e = "- 50" and m = "7993889338582630" and p = "1 / 1125899906842624"])
      (simp_all add: pow2_neg_numeral)
  have f1: "fl (0 + (3996944669291315 / 562949953421312)) = (3996944669291315 / 562949953421312 :: rat)"
    by (rule fl_near [where e = "- 50" and m = "7993889338582630" and p = "1 / 1125899906842624"])
      (simp_all add: pow2_neg_numeral pow2_numeral power2_eq_square)
  have f2: "fl ((3996944669291315 / 562949953421312) + (3996944669291315 / 562949953421312)) = (3996944669291315 / 281474976710656 :: rat)"
    by (rule fl_near [where e = "- 49" and m = "7993889338582630" and p = "1 / 562949953421312"])
      (simp_all add: pow2_neg_numeral pow2_numeral power2_eq_square)
  have f3: "fl ((3996944669291315 / 281474976710656) + (3996944669291315 / 562949953421312)) = (1498854250984243 / 70368744177664 :: rat)"
    by (rule fl_tie_down [where e = "- 48" and m = "5995417003936972" and p = "1 / 281474976710656"])
      (simp_all add: pow2_neg_numeral pow2_numeral power2_eq_square)
  have sum_x: "fl_sum [3996944669291315 / 562949953421312, 3996944669291315 / 562949953421312, 3996944669291315 / 562949953421312] = (1498854250984243 / 70368744177664 :: rat)"
    by (simp only: fl_sum_three f1 f2 f3)
  have f4: "fl ((1498854250984243 / 70368744177664) / 3) = (7993889338582629 / 1125899906842624 :: rat)"
    by (rule fl_near [where e = "- 50" and m = "7993889338582629" and p = "1 / 1125899906842624"])
      (simp_all add: pow2_neg_numeral pow2_numeral power2_eq_square)
  have mean_x: "fl (fl_sum [3996944669291315 / 562949953421312, 3996944669291315 / 562949953421312, 3996944669291315 / 562949953421312] / 3) = (7993889338582629 / 1125899906842624 :: rat)"
    by (simp only: sum_x f4)
  have f5: "fl (0 + 50) = (50 :: rat)"
    by (rule fl_near [where e = "- 47" and m = "7036874417766400" and p = "1 / 140737488355328"])
      (simp_all add: pow2_neg_numeral pow2_numeral power2_eq_square)
  have f6: "fl (50 + 60) = (110 :: rat)"
    by (rule fl_near [where e = "- 46" and m = "7740561859543040" and p = "1 / 70368744177664"])
      (simp_all add: pow2_neg_numeral pow2_numeral power2_eq_square)
  have f7: "fl (110 + 70) = (180 :: rat)"
    by (rule fl_near [where e = "- 45" and m = "6333186975989760" and p = "1 / 35184372088832"])
      (simp_all add: pow2_neg_numeral pow2_numeral power2_eq_square)
  have sum_y: "fl_sum [50, 60, 70] = (180 :: rat)"
    by (simp only: fl_sum_three f5 f6 f7)
  have f8: "fl (180 / 3) = (60 :: rat)"
    by (rule fl_near [where e = "- 47" and m = "8444249301319680" and p = "1 / 140737488355328"])
      (simp_all add: pow2_neg_numeral pow2_numeral power2_eq_square)
  have mean_y: "fl (fl_sum [50, 60, 70] / 3) = (60 :: rat)"
    by (simp only: sum_y f8)
  have f9: "fl ((3996944669291315 / 562949953421312) - (7993889338582629 / 1125899906842624)) = (1 / 1125899906842624 :: rat)"
    by (rule fl_near [where e = "- 102" and m = "4503599627370496" and p = "1 / 5070602400912917605986812821504"])
      (simp_all add: pow2_neg_numeral pow2_numeral power2_eq_square)
  have f10: "fl (50 - 60) = (- 10 :: rat)"
    by (rule fl_near [where e = "- 49" and m = "- 5629499534213120" and p = "1 / 562949953421312"])
      (simp_all add: pow2_neg_numeral pow2_numeral power2_eq_square)
  have f11: "fl (60 - 60) = (0 :: rat)"
    by (simp add: fl_zero)
  have f12: "fl (70 - 60) = (10 :: rat)"
    by (rule fl_near [where e = "- 49" and m = "5629499534213120" and p = "1 / 562949953421312"])
      (simp_all add: pow2_neg_numeral pow2_numeral power2_eq_square)
  have f13: "fl ((1 / 1125899906842624) * (- 10)) = (- (5 / 562949953421312) :: rat)"
    by (rule fl_near [where e = "- 99" and m = "- 5629499534213120" and p = "1 / 633825300114114700748351602688"])
      (simp_all add: pow2_neg_numeral pow2_numeral power2_eq_square)
  have f14: "fl ((1 / 1125899906842624) * 0) = (0 :: rat)"
    by (simp add: fl_zero)
  have f15: "fl ((1 / 1125899906842624) * 10) = (5 / 562949953421312 :: rat)"
    by (rule fl_near [where e = "- 99" and m = "5629499534213120" and p = "1 / 633825300114114700748351602688"])
      (simp_all add: pow2_neg_numeral pow2_numeral power2_eq_square)
  have f16: "fl (0 + (- (5 / 562949953421312))) = (- (5 / 562949953421312) :: rat)"
    by (rule fl_near [where e = "- 99" and m = "- 5629499534213120" and p = "1 / 633825300114114700748351602688"])
      (simp_all add: pow2_neg_numeral pow2_numeral power2_eq_square)
  have f17: "fl ((- (5 / 562949953421312)) + 0) = (- (5 / 562949953421312) :: rat)"
    by (rule fl_near [where e = "- 99" and m = "- 5629499534213120" and p = "1 / 633825300114114700748351602688"])
      (simp_all add: pow2_neg_numeral pow2_numeral power2_eq_square)
  have f18: "fl ((- (5 / 562949953421312)) + (5 / 562949953421312)) = (0 :: rat)"
    by (simp add: fl_zero)
  have numerator: "fl_sum [fl ((1 / 1125899906842624) * (- 10)), fl ((1 / 1125899906842624) * 0), fl ((1 / 1125899906842624) * 10)] = (0 :: rat)"
    by (simp only: fl_sum_three f13 f14 f15 f16 f17 f18)
  have f19: "fl ((1 / 1125899906842624)\<^sup>2) = (1 / 1267650600228229401496703205376 :: rat)"
    by (rule fl_near [where e = "- 152" and m = "4503599627370496" and p = "1 / 5708990770823839524233143877797980545530986496"])
      (simp_all add: pow2_neg_numeral pow2_numeral power2_eq_square)
  have f20: "fl (0 + (1 / 1267650600228229401496703205376)) = (1 / 1267650600228229401496703205376 :: rat)"
    by (rule fl_near [where e = "- 152" and m = "4503599627370496" and p = "1 / 5708990770823839524233143877797980545530986496"])
      (simp_all add: pow2_neg_numeral pow2_numeral power2_eq_square)
  have f21: "fl ((1 / 1267650600228229401496703205376) + (1 / 1267650600228229401496703205376)) = (1 / 633825300114114700748351602688 :: rat)"
    by (rule fl_near [where e = "- 151" and m = "4503599627370496" and p = "1 / 2854495385411919762116571938898990272765493248"])
      (simp_all add: pow2_neg_numeral pow2_numeral power2_eq_square)
  have f22: "fl ((1 / 633825300114114700748351602688) + (1 / 1267650600228229401496703205376)) = (3 / 1267650600228229401496703205376 :: rat)"
    by (rule fl_near [where e = "- 151" and m = "6755399441055744" and p = "1 / 2854495385411919762116571938898990272765493248"])
      (simp_all add: pow2_neg_numeral pow2_numeral power2_eq_square)
  have squares_x: "fl_sum [fl ((1 / 1125899906842624)\<^sup>2), fl ((1 / 1125899906842624)\<^sup>2), fl ((1 / 1125899906842624)\<^sup>2)] = (3 / 1267650600228229401496703205376 :: rat)"
    by (simp only: fl_sum_three f19 f20 f21 f22)
  have f23: "fl ((- 10)\<^sup>2) = (100 :: rat)"
    by (rule fl_near [where e = "- 46" and m = "7036874417766400" and p = "1 / 70368744177664"])
      (simp_all add: pow2_neg_numeral pow2_numeral power2_eq_square)
  have f24: "fl (0\<^sup>2) = (0 :: rat)"
    by (simp add: fl_zero)
  have f25: "fl (10\<^sup>2) = (100 :: rat)"
    by (rule fl_near [where e = "- 46" and m = "7036874417766400" and p = "1 / 70368744177664"])
      (simp_all add: pow2_neg_numeral pow2_numeral power2_eq_square)
  have f26: "fl (0 + 100) = (100 :: rat)"
    by (rule fl_near [where e = "- 46" and m = "7036874417766400" and p = "1 / 70368744177664"])
      (simp_all add: pow2_neg_numeral pow2_numeral power2_eq_square)
  have f27: "fl (100 + 0) = (100 :: rat)"
    by (rule fl_near [where e = "- 46" and m = "7036874417766400" and p = "1 / 70368744177664"])
      (simp_all add: pow2_neg_numeral pow2_numeral power2_eq_square)
  have f28: "fl (100 + 100) = (200 :: rat)"
    by (rule fl_near [where e = "- 45" and m = "7036874417766400" and p = "1 / 35184372088832"])
      (simp_all add: pow2_neg_numeral pow2_numeral power2_eq_square)
  have squares_y: "fl_sum [fl ((- 10)\<^sup>2), fl (0\<^sup>2), fl (10\<^sup>2)] = (200 :: rat)"
    by (simp only: fl_sum_three f23 f24 f25 f26 f27 f28)

  have dx: "fl_sqrt (3 / 1267650600228229401496703205376) \<noteq> 0"
    using fl_sqrt_pos [of "3 / 1267650600228229401496703205376"] by simp
  have dy: "fl_sqrt (200) \<noteq> 0"
    using fl_sqrt_pos [of "200"] by simp
  have "pearson_correlation_f64 [(3996944669291315 / 562949953421312, 50), (3996944669291315 / 562949953421312, 60), (3996944669291315 / 562949953421312, 70)]
     = (if fl_sqrt (3 / 1267650600228229401496703205376) = 0 \<or> fl_sqrt (200) = 0 then None
        else Some (fl_round (fl (0 / fl (fl_sqrt (3 / 1267650600228229401496703205376) * fl_sqrt (200)))) 3))"
    by (rule pearson_correlation_f64_three [OF mean_x mean_y f9 f9 f9 f10 f11 f12 numerator squares_x squares_y])
  also have "\<dots> = Some 0"
    using dx dy by (simp add: fl_zero fl_round_def round_half_even_def)
  finally show ?thesis
    unfolding x .
qed

end
